theory Spec2Isabelle
  imports Complex_Main "HOL-Library.AList"
begin

section \<open>Outlier classification of tabular data\<close>

text \<open>
  A shallow embedding of \<^verbatim>\<open>outlier_handler.py\<close> and of \<^verbatim>\<open>percentage\<close> from
  \<^verbatim>\<open>base_data_science_utils.py\<close>.

  The program works on pandas data frames and calls pandas, numpy and scipy. What the
  embedding keeps of them:
  \<^item> a data frame is a header (column names with their dtypes) and a list of rows;
    each row carries its index label and one cell per column. Index labels may repeat,
    as pandas allows. Column names are assumed distinct (\<open>wf_dataframe\<close>);
  \<^item> a cell is a number or missing (\<open>None\<close>, the NaN or NaT of pandas). A number
    is a real, the value of a binary double; infinite values are not modelled;
  \<^item> the floating-point operations of Python and numpy, the builtin \<^verbatim>\<open>round\<close> and
    the statistics of the libraries (\<^verbatim>\<open>Series.quantile\<close>, \<^verbatim>\<open>mean\<close>, \<^verbatim>\<open>std\<close>)
    are not fixed: the program is embedded over a record \<open>numerics\<close> that holds them, and
    what is proved for every such record holds for the arithmetic of the machine. The
    record \<open>exact\<close> is the idealisation in which nothing is rounded, and the examples
    are evaluated in it; \<open>binary64\<close> is the arithmetic of doubles, in which the effect of
    rounding is shown on three inputs;
  \<^item> two dtypes: \<open>Float64\<close> stands for the floating-point and integer dtypes,
    \<open>Timedelta64\<close> for a dtype that pandas orders and interpolates but that
    \<^verbatim>\<open>is_numeric_dtype\<close> rejects. Boolean and complex columns, which
    \<^verbatim>\<open>is_numeric_dtype\<close> accepts too, have no dtype of their own: what sets them
    apart, that a library statistic raises on them, is a behaviour that a record
    \<open>numerics\<close> may have on any column. Object, string and categorical columns are not
    modelled;
  \<^item> an exception is a value \<open>Inl e\<close> of the result type \<open>error + 'a\<close>;
  \<^item> what is printed is returned as a list of output events.
\<close>

subsection \<open>Data frames\<close>

datatype dtype = Float64 | Timedelta64

fun is_numeric_dtype :: "dtype \<Rightarrow> bool" where
  "is_numeric_dtype Float64 = True"
| "is_numeric_dtype Timedelta64 = False"

type_synonym cell = "real option"

record row =
  label :: nat
  cells :: "cell list"

record dataframe =
  columns :: "(string \<times> dtype) list"
  rows :: "row list"

datatype error = KeyError string | TypeError | ZeroDivisionError

definition wf_dataframe :: "dataframe \<Rightarrow> bool" where
  "wf_dataframe df \<longleftrightarrow>
     distinct (map fst (columns df)) \<and>
     list_all (\<lambda>r. length (cells r) = length (columns df)) (rows df)"

text \<open>\<^verbatim>\<open>len(df.index)\<close>\<close>

definition len_index :: "dataframe \<Rightarrow> nat" where
  "len_index df = length (rows df)"

text \<open>The index labels of a frame, \<^verbatim>\<open>df.index\<close>, in row order.\<close>

definition index :: "dataframe \<Rightarrow> nat list" where
  "index df = map label (rows df)"

text \<open>The position of a column name in the header; \<open>None\<close> when the name is absent.\<close>

fun column_pos :: "(string \<times> dtype) list \<Rightarrow> string \<Rightarrow> nat option" where
  "column_pos [] c = None"
| "column_pos ((n, t) # cs) c =
     (if n = c then Some 0 else map_option Suc (column_pos cs c))"

text \<open>The dtype of a named column.\<close>

definition column_dtype :: "dataframe \<Rightarrow> string \<Rightarrow> dtype option" where
  "column_dtype df c = map_of (columns df) c"

text \<open>
  \<^verbatim>\<open>df[column]\<close>: the dtype and the cells of the column, in row order. pandas raises
  KeyError for a name that is not a column.
\<close>

definition getitem_column :: "dataframe \<Rightarrow> string \<Rightarrow> error + (dtype \<times> cell list)" where
  "getitem_column df c =
     (case column_pos (columns df) c of
        None \<Rightarrow> Inl (KeyError c)
      | Some i \<Rightarrow> Inr (snd (columns df ! i), map (\<lambda>r. cells r ! i) (rows df)))"

text \<open>
  \<^verbatim>\<open>df[mask]\<close> with a boolean mask that has one entry per row: the rows at the
  positions where the mask is true. Every mask of the program is computed from the
  frame it selects from, so the selection is by position.
\<close>

definition mask_rows :: "bool list \<Rightarrow> row list \<Rightarrow> row list" where
  "mask_rows m rs = map snd (filter fst (zip m rs))"

definition getitem_mask :: "dataframe \<Rightarrow> bool list \<Rightarrow> dataframe" where
  "getitem_mask df m = df\<lparr>rows := mask_rows m (rows df)\<rparr>"

text \<open>Sequencing of computations that may raise.\<close>

definition and_then :: "error + 'a \<Rightarrow> ('a \<Rightarrow> error + 'b) \<Rightarrow> error + 'b" where
  "and_then m f = (case m of Inl e \<Rightarrow> Inl e | Inr x \<Rightarrow> f x)"

subsection \<open>Comparisons, and exact arithmetic with NaN\<close>

text \<open>
  A comparison of two doubles is exact, and a comparison with NaN is false.
  \<^verbatim>\<open>np.abs\<close> is exact too and keeps NaN.
\<close>

definition lt_nan :: "cell \<Rightarrow> cell \<Rightarrow> bool" where
  "lt_nan a b = (case (a, b) of (Some x, Some y) \<Rightarrow> x < y | _ \<Rightarrow> False)"

definition gt_nan :: "cell \<Rightarrow> cell \<Rightarrow> bool" where
  "gt_nan a b = (case (a, b) of (Some x, Some y) \<Rightarrow> x > y | _ \<Rightarrow> False)"

text \<open>
  The four operations without rounding, for the record \<open>exact\<close>. NaN is passed on; a
  division by zero counts as NaN.
\<close>

definition sub_nan :: "cell \<Rightarrow> cell \<Rightarrow> cell" where
  "sub_nan a b = (case (a, b) of (Some x, Some y) \<Rightarrow> Some (x - y) | _ \<Rightarrow> None)"

definition add_nan :: "cell \<Rightarrow> cell \<Rightarrow> cell" where
  "add_nan a b = (case (a, b) of (Some x, Some y) \<Rightarrow> Some (x + y) | _ \<Rightarrow> None)"

definition mul_nan :: "cell \<Rightarrow> cell \<Rightarrow> cell" where
  "mul_nan a b = (case (a, b) of (Some x, Some y) \<Rightarrow> Some (x * y) | _ \<Rightarrow> None)"

definition div_nan :: "cell \<Rightarrow> cell \<Rightarrow> cell" where
  "div_nan a b =
     (case (a, b) of (Some x, Some y) \<Rightarrow> (if y = 0 then None else Some (x / y)) | _ \<Rightarrow> None)"

definition abs_nan :: "cell \<Rightarrow> cell" where
  "abs_nan a = map_option abs a"

subsection \<open>Floating-point arithmetic and library statistics\<close>

text \<open>
  What the program takes from Python, numpy and pandas and does not define itself:
  \<^item> \<open>float_mul\<close>, \<open>float_truediv\<close>: the product and the quotient (by a divisor
    other than zero) of two Python floats;
  \<^item> \<open>builtin_round\<close>: \<^verbatim>\<open>round(x, digits)\<close> of a float;
  \<^item> \<open>np_subtract\<close>, \<open>np_add\<close>, \<open>np_multiply\<close>, \<open>np_divide\<close>: the arithmetic of
    numpy on float64 scalars and, element by element, on arrays;
  \<^item> \<open>series_quantile\<close>: \<^verbatim>\<open>Series.quantile(q)\<close> for a column of a dtype, which
    interpolates linearly by default and may raise;
  \<^item> \<open>array_mean\<close>, \<open>array_std\<close>: \<^verbatim>\<open>a.mean()\<close> and \<^verbatim>\<open>a.std(ddof=...)\<close>.
\<close>

record numerics =
  float_mul :: "real \<Rightarrow> real \<Rightarrow> real"
  float_truediv :: "real \<Rightarrow> real \<Rightarrow> real"
  builtin_round :: "real \<Rightarrow> nat \<Rightarrow> real"
  np_subtract :: "cell \<Rightarrow> cell \<Rightarrow> cell"
  np_add :: "cell \<Rightarrow> cell \<Rightarrow> cell"
  np_multiply :: "cell \<Rightarrow> cell \<Rightarrow> cell"
  np_divide :: "cell \<Rightarrow> cell \<Rightarrow> cell"
  series_quantile :: "dtype \<Rightarrow> cell list \<Rightarrow> real \<Rightarrow> error + cell"
  array_mean :: "cell list \<Rightarrow> cell"
  array_std :: "nat \<Rightarrow> cell list \<Rightarrow> cell"

text \<open>
  \<^verbatim>\<open>scipy.stats.zscore(a)\<close> with its defaults \<^verbatim>\<open>ddof=0\<close> and
  \<^verbatim>\<open>nan_policy='propagate'\<close>: an empty input gives an empty result; otherwise the
  mean is subtracted from each value and the difference divided by the standard deviation
  with divisor \<open>n\<close>. When all values are equal to the first one, every score is NaN.
\<close>

definition zscore :: "numerics \<Rightarrow> cell list \<Rightarrow> cell list" where
  "zscore nu a =
     (if a = [] then []
      else
        let mn = array_mean nu a;
            sd = array_std nu 0 a;
            isconst = list_all (\<lambda>x. x \<noteq> None \<and> x = hd a) a
        in map (\<lambda>x. if isconst then None else np_divide nu (np_subtract nu x mn) sd) a)"

subsection \<open>The statistics without rounding\<close>

text \<open>The values of a column that are present, in row order.\<close>

primrec present :: "cell list \<Rightarrow> real list" where
  "present [] = []"
| "present (c # cs) = (case c of None \<Rightarrow> present cs | Some x \<Rightarrow> x # present cs)"

text \<open>
  Linear interpolation between ranked data points, the default of pandas and numpy:
  for \<open>n\<close> values the quantile \<open>q\<close> sits at the fractional position \<open>(n - 1) * q\<close>
  of the sorted values and is interpolated between the two neighbouring ranks.
\<close>

definition quantile_linear :: "real list \<Rightarrow> real \<Rightarrow> real" where
  "quantile_linear vs q =
     (let xs = sort vs; n = length xs;
          h = real (n - 1) * q;
          lo = nat \<lfloor>h\<rfloor>;
          hi = min (lo + 1) (n - 1)
      in xs ! lo + (h - real lo) * (xs ! hi - xs ! lo))"

text \<open>
  The quantile of a column of numbers or durations in exact arithmetic: missing values
  are skipped, and the quantile of no values is NaN.
\<close>

definition quantile :: "cell list \<Rightarrow> real \<Rightarrow> cell" where
  "quantile a q =
     (let vs = present a in
      if vs = [] then None else Some (quantile_linear vs q))"

text \<open>The mean and the standard deviation with divisor \<open>n\<close> of a non-empty list.\<close>

definition mean :: "real list \<Rightarrow> real" where
  "mean xs = sum_list xs / real (length xs)"

definition std :: "real list \<Rightarrow> real" where
  "std xs = sqrt (sum_list (map (\<lambda>x. (x - mean xs)\<^sup>2) xs) / real (length xs))"

text \<open>
  The standard deviation with divisor \<open>n - 1\<close> (Bessel's correction), which statistics
  calls the sample standard deviation.
\<close>

definition std_sample :: "real list \<Rightarrow> real" where
  "std_sample xs = sqrt (sum_list (map (\<lambda>x. (x - mean xs)\<^sup>2) xs) / (real (length xs) - 1))"

text \<open>On arrays: a NaN in the input gives NaN, and so does an input that is too short.\<close>

definition mean_nan :: "cell list \<Rightarrow> cell" where
  "mean_nan a = (if a = [] \<or> None \<in> set a then None else Some (mean (present a)))"

definition std_nan :: "nat \<Rightarrow> cell list \<Rightarrow> cell" where
  "std_nan ddof a =
     (if length a \<le> ddof \<or> None \<in> set a then None
      else Some (sqrt (sum_list (map (\<lambda>x. (x - mean (present a))\<^sup>2) (present a))
                       / (real (length a) - real ddof))))"

text \<open>
  Rounding to a number of decimal digits, a tie going to the even neighbour, of the
  exact value.
\<close>

definition round_half_even :: "real \<Rightarrow> int" where
  "round_half_even y =
     (let f = \<lfloor>y\<rfloor>; r = y - of_int f in
      if r < 1/2 then f
      else if r > 1/2 then f + 1
      else if even f then f else f + 1)"

definition round_decimal :: "real \<Rightarrow> nat \<Rightarrow> real" where
  "round_decimal x digits = of_int (round_half_even (x * 10 ^ digits)) / 10 ^ digits"

text \<open>The arithmetic and the statistics in which nothing is rounded.\<close>

definition exact :: numerics where
  "exact =
     \<lparr>float_mul = (\<lambda>x y. x * y),
      float_truediv = (\<lambda>x y. x / y),
      builtin_round = round_decimal,
      np_subtract = sub_nan,
      np_add = add_nan,
      np_multiply = mul_nan,
      np_divide = div_nan,
      series_quantile = (\<lambda>t a q. Inr (quantile a q)),
      array_mean = mean_nan,
      array_std = std_nan\<rparr>"

subsection \<open>Binary floating-point arithmetic\<close>

text \<open>
  The doubles of the machine (IEEE 754 binary64): the result of an operation is the exact
  result rounded to the nearest number with 53 significant bits, a tie going to the even
  neighbour; the spacing of the doubles is \<open>2 ^ (e - 52)\<close> between \<open>2 ^ e\<close> and
  \<open>2 ^ (e + 1)\<close>, and stays \<open>2 ^ (- 1074)\<close> below \<open>2 ^ (- 1022)\<close>. Results too large
  for a double, which the machine turns into an infinity, are not modelled.

  \<open>binade n x\<close> is, for \<open>x > 0\<close>, the exponent \<open>e\<close> with \<open>2 ^ e \<le> x < 2 ^ (e + 1)\<close>,
  found in at most \<open>n\<close> steps; \<open>2200\<close> steps reach the exponent of every double.
\<close>

definition pow2 :: "int \<Rightarrow> real" where
  "pow2 e = (if 0 \<le> e then 2 ^ nat e else 1 / 2 ^ nat (- e))"

fun binade :: "nat \<Rightarrow> real \<Rightarrow> int" where
  "binade 0 x = 0"
| "binade (Suc n) x =
     (if 2 \<le> x then binade n (x / 2) + 1
      else if x < 1 then binade n (2 * x) - 1
      else 0)"

definition round_binary64 :: "real \<Rightarrow> real" where
  "round_binary64 x =
     (if x = 0 then 0
      else
        let e = max (binade 2200 \<bar>x\<bar>) (- 1022);
            u = pow2 (e - 52)
        in of_int (round_half_even (x / u)) * u)"

text \<open>
  The operations of numpy on two float64 scalars. NaN is passed on. A division by zero,
  which gives an infinity or NaN, counts as NaN.
\<close>

definition float64_op :: "(real \<Rightarrow> real \<Rightarrow> real) \<Rightarrow> cell \<Rightarrow> cell \<Rightarrow> cell" where
  "float64_op f a b =
     (case (a, b) of (Some x, Some y) \<Rightarrow> Some (round_binary64 (f x y)) | _ \<Rightarrow> None)"

definition float64_divide :: "cell \<Rightarrow> cell \<Rightarrow> cell" where
  "float64_divide a b =
     (case (a, b) of
        (Some x, Some y) \<Rightarrow> (if y = 0 then None else Some (round_binary64 (x / y)))
      | _ \<Rightarrow> None)"

text \<open>
  The arithmetic of doubles, with the statistics of the libraries left as they are in
  \<open>lib\<close>. The builtin \<^verbatim>\<open>round\<close> of Python is correctly rounded: it gives the double
  nearest to the decimal rounding (a tie going to the even digit) of the exact value of
  its argument.
\<close>

definition binary64 :: "numerics \<Rightarrow> numerics" where
  "binary64 lib =
     lib\<lparr>float_mul := (\<lambda>x y. round_binary64 (x * y)),
         float_truediv := (\<lambda>x y. round_binary64 (x / y)),
         builtin_round := (\<lambda>x digits. round_binary64 (round_decimal x digits)),
         np_subtract := float64_op (\<lambda>x y. x - y),
         np_add := float64_op (\<lambda>x y. x + y),
         np_multiply := float64_op (\<lambda>x y. x * y),
         np_divide := float64_divide\<rparr>"

subsection \<open>The outlier handler\<close>

datatype OutlierCalculationMethod = INTERQUARTILE | ZSCORE

record OutlierHandler =
  calculation_method :: OutlierCalculationMethod

text \<open>The constructor; its parameter defaults to \<open>ZSCORE\<close>.\<close>

definition init :: "OutlierCalculationMethod option \<Rightarrow> OutlierHandler" where
  "init m = \<lparr>calculation_method = (case m of None \<Rightarrow> ZSCORE | Some c \<Rightarrow> c)\<rparr>"

definition calculate_outliers_interquartile ::
  "numerics \<Rightarrow> dataframe \<Rightarrow> string \<Rightarrow> error + dataframe" where
  "calculate_outliers_interquartile nu df column =
     and_then (getitem_column df column) (\<lambda>(t, a).
       and_then (series_quantile nu t a 0.25) (\<lambda>Q1.
       and_then (series_quantile nu t a 0.75) (\<lambda>Q3.
         let IQR = np_subtract nu Q3 Q1;
             threshold = Some 1.5
         in Inr (getitem_mask df
              (map (\<lambda>v. lt_nan v (np_subtract nu Q1 (np_multiply nu threshold IQR)) \<or>
                         gt_nan v (np_add nu Q3 (np_multiply nu threshold IQR))) a)))))"

definition calculate_outliers_zscore ::
  "numerics \<Rightarrow> dataframe \<Rightarrow> string \<Rightarrow> error + dataframe" where
  "calculate_outliers_zscore nu df column =
     and_then (getitem_column df column) (\<lambda>(t, a).
       let z = map abs_nan (zscore nu a);
           threshold = 3
       in Inr (getitem_mask df (map (\<lambda>v. gt_nan v (Some threshold)) z)))"

fun outlier_calculation_methods ::
  "OutlierCalculationMethod \<Rightarrow> numerics \<Rightarrow> dataframe \<Rightarrow> string \<Rightarrow> error + dataframe" where
  "outlier_calculation_methods INTERQUARTILE = calculate_outliers_interquartile"
| "outlier_calculation_methods ZSCORE = calculate_outliers_zscore"

text \<open>
  \<^verbatim>\<open>df[~df.index.isin(filter.index)]\<close>: the rows whose index label is not a label of
  the filter frame.
\<close>

definition filter_dataframe_out :: "dataframe \<Rightarrow> dataframe \<Rightarrow> dataframe" where
  "filter_dataframe_out df flt =
     getitem_mask df (map (\<lambda>l. \<not> (l \<in> set (index flt))) (index df))"

definition get_missing :: "dataframe \<Rightarrow> string \<Rightarrow> error + dataframe" where
  "get_missing df column =
     and_then (getitem_column df column) (\<lambda>(t, a).
       Inr (getitem_mask df (map (\<lambda>v. v = None) a)))"

text \<open>\<^verbatim>\<open>df.dropna(subset=[column])\<close> raises KeyError for a name that is not a column.\<close>

definition get_non_missing :: "dataframe \<Rightarrow> string \<Rightarrow> error + dataframe" where
  "get_non_missing df column =
     and_then (getitem_column df column) (\<lambda>(t, a).
       Inr (getitem_mask df (map (\<lambda>v. v \<noteq> None) a)))"

definition get_outliers ::
  "numerics \<Rightarrow> OutlierHandler \<Rightarrow> dataframe \<Rightarrow> string \<Rightarrow> error + dataframe" where
  "get_outliers nu self df column =
     and_then (get_non_missing df column) (\<lambda>non_na_df.
       outlier_calculation_methods (calculation_method self) nu non_na_df column)"

definition get_non_outliers ::
  "numerics \<Rightarrow> OutlierHandler \<Rightarrow> dataframe \<Rightarrow> string \<Rightarrow> error + dataframe" where
  "get_non_outliers nu self df column =
     and_then (get_non_missing df column) (\<lambda>non_na_df.
       and_then (get_outliers nu self df column) (\<lambda>outliers_df.
         Inr (filter_dataframe_out non_na_df outliers_df)))"

subsection \<open>Percentages\<close>

text \<open>
  \<^verbatim>\<open>round(100 * float(part)/float(whole), digits)\<close>. Python raises
  ZeroDivisionError for a float division by zero. The arguments are row counts:
  \<^verbatim>\<open>float\<close> of an integer below \<open>2\<^sup>5\<^sup>3\<close> is exact, and larger integers are not
  modelled. Only \<open>digits \<ge> 0\<close> is modelled.
\<close>

definition percentage :: "numerics \<Rightarrow> nat \<Rightarrow> nat \<Rightarrow> nat \<Rightarrow> error + real" where
  "percentage nu part whole digits =
     (if real whole = 0 then Inl ZeroDivisionError
      else Inr (builtin_round nu
                  (float_truediv nu (float_mul nu 100 (real part)) (real whole)) digits))"

subsection \<open>The report\<close>

record column_report =
  missing_values_count :: nat
  missing_values_percentage :: real
  outlier_values_count :: nat
  outlier_values_percentage :: real
  non_outlier_values_count :: nat
  non_outlier_values_percentage :: real
  missing_values_df :: "dataframe option"
  outlier_values_df :: "dataframe option"
  non_outlier_values_df :: "dataframe option"

text \<open>
  What the program prints. \<open>Warning c\<close> is the line
  \<^verbatim>\<open>WARNING: Value Counts for column c does not match\<close>. \<open>ColumnInformation\<close> is the
  block of lines that the logging prints for one column, with the column name and the
  three counts and percentages it shows; the rendering of numbers as text is not modelled.
\<close>

datatype printed =
  Warning string
| ColumnInformation string nat real nat real nat real

type_synonym report = "(string \<times> column_report) list"

text \<open>The body of the loop for a column that passed the test of line 86.\<close>

definition column_information ::
  "numerics \<Rightarrow> OutlierHandler \<Rightarrow> dataframe \<Rightarrow> bool \<Rightarrow> string \<Rightarrow>
   error + (printed list \<times> column_report)" where
  "column_information nu self df output_dataframes column =
     (let df_total_rows = len_index df in
      and_then (get_missing df column) (\<lambda>missing_values_df.
      and_then (get_non_missing df column) (\<lambda>non_missing_values_df.
      and_then (get_outliers nu self df column) (\<lambda>outlier_values_df.
      and_then (get_non_outliers nu self df column) (\<lambda>non_outlier_values_df.
        let missing_values_count = len_index missing_values_df;
            outlier_values_count = len_index outlier_values_df;
            non_outlier_values_count = len_index non_outlier_values_df;
            out = (if missing_values_count + outlier_values_count + non_outlier_values_count
                      \<noteq> df_total_rows
                   then [Warning column] else [])
        in
        and_then (percentage nu missing_values_count df_total_rows 4) (\<lambda>missing_pct.
        and_then (percentage nu outlier_values_count df_total_rows 4) (\<lambda>outlier_pct.
        and_then (percentage nu non_outlier_values_count df_total_rows 4) (\<lambda>non_outlier_pct.
          Inr (out,
            \<lparr>missing_values_count = missing_values_count,
             missing_values_percentage = missing_pct,
             outlier_values_count = outlier_values_count,
             outlier_values_percentage = outlier_pct,
             non_outlier_values_count = non_outlier_values_count,
             non_outlier_values_percentage = non_outlier_pct,
             missing_values_df =
               (if output_dataframes then Some missing_values_df else None),
             outlier_values_df =
               (if output_dataframes then Some outlier_values_df else None),
             non_outlier_values_df =
               (if output_dataframes then Some non_outlier_values_df else None)\<rparr>)))))))))"

text \<open>
  The loop over \<^verbatim>\<open>df.columns\<close>. \<open>todo\<close> holds the column names still to visit; the
  output so far and the dictionary \<^verbatim>\<open>result\<close> are threaded through. An assignment
  \<^verbatim>\<open>result[column] = ...\<close> keeps the place of a key that is already there and
  appends a new key.
\<close>

fun columns_loop ::
  "numerics \<Rightarrow> OutlierHandler \<Rightarrow> dataframe \<Rightarrow> bool \<Rightarrow> string list \<Rightarrow> string list \<Rightarrow>
   printed list \<times> report \<Rightarrow> error + (printed list \<times> report)" where
  "columns_loop nu self df output_dataframes cols [] acc = Inr acc"
| "columns_loop nu self df output_dataframes cols (column # todo) (out, result) =
     and_then (getitem_column df column) (\<lambda>(t, a).
       if is_numeric_dtype t \<and> (cols = [] \<or> column \<in> set cols) then
         and_then (column_information nu self df output_dataframes column) (\<lambda>(w, rep).
           columns_loop nu self df output_dataframes cols todo
             (out @ w, AList.update column rep result))
       else columns_loop nu self df output_dataframes cols todo (out, result))"

definition log_column_information :: "report \<Rightarrow> printed list" where
  "log_column_information outliers_information =
     map (\<lambda>(column, information).
            ColumnInformation column
              (missing_values_count information) (missing_values_percentage information)
              (outlier_values_count information) (outlier_values_percentage information)
              (non_outlier_values_count information)
              (non_outlier_values_percentage information))
         outliers_information"

definition get_outliers_information ::
  "numerics \<Rightarrow> OutlierHandler \<Rightarrow> dataframe \<Rightarrow> bool \<Rightarrow> string list \<Rightarrow> bool \<Rightarrow>
   error + (printed list \<times> report)" where
  "get_outliers_information nu self df output_dataframes cols log_information =
     and_then (columns_loop nu self df output_dataframes cols (map fst (columns df)) ([], []))
       (\<lambda>(out, result).
          Inr (if log_information then out @ log_column_information result else out,
               result))"

subsection \<open>Notions used to state the properties\<close>

text \<open>The cell of a row in a named column; missing when the frame has no such column.\<close>

definition value_at :: "dataframe \<Rightarrow> string \<Rightarrow> row \<Rightarrow> cell" where
  "value_at df c r =
     (case column_pos (columns df) c of None \<Rightarrow> None | Some i \<Rightarrow> cells r ! i)"

text \<open>The values of a named column that are present, in row order.\<close>

definition column_values :: "dataframe \<Rightarrow> string \<Rightarrow> real list" where
  "column_values df c = present (map (value_at df c) (rows df))"

text \<open>
  The cells of a named column that are present, in row order: the column that
  \<^verbatim>\<open>get_outliers\<close> hands to the rule, after the rows with a missing value are dropped.
\<close>

definition present_cells :: "dataframe \<Rightarrow> string \<Rightarrow> cell list" where
  "present_cells df c = map Some (column_values df c)"

text \<open>The test of line 86: the column is numeric and the filter, if there is one, names it.\<close>

definition selected :: "dataframe \<Rightarrow> string list \<Rightarrow> string \<Rightarrow> bool" where
  "selected df cols c =
     (case column_dtype df c of
        None \<Rightarrow> False
      | Some t \<Rightarrow> is_numeric_dtype t \<and> (cols = [] \<or> c \<in> set cols))"

text \<open>The column that an output event is about.\<close>

fun printed_column :: "printed \<Rightarrow> string" where
  "printed_column (Warning c) = c"
| "printed_column (ColumnInformation c mc mp oc op nc np) = c"

subsection \<open>Example tables\<close>

text \<open>
  The column \<^verbatim>\<open>[10, 12, 11, 13, None, 200]\<close> with the default index \<open>0, \<dots>, 5\<close>.
\<close>

definition scenario :: dataframe where
  "scenario = \<lparr>columns = [(''a'', Float64)],
     rows = [\<lparr>label = 0, cells = [Some 10]\<rparr>, \<lparr>label = 1, cells = [Some 12]\<rparr>,
             \<lparr>label = 2, cells = [Some 11]\<rparr>, \<lparr>label = 3, cells = [Some 13]\<rparr>,
             \<lparr>label = 4, cells = [None]\<rparr>, \<lparr>label = 5, cells = [Some 200]\<rparr>]\<rparr>"

text \<open>
  Two frames put one after the other with their own indexes kept, as \<^verbatim>\<open>pd.concat\<close>
  does: the label \<open>0\<close> occurs twice.
\<close>

definition concatenated :: dataframe where
  "concatenated = \<lparr>columns = [(''a'', Float64)],
     rows = [\<lparr>label = 0, cells = [Some 10]\<rparr>, \<lparr>label = 1, cells = [Some 12]\<rparr>,
             \<lparr>label = 2, cells = [Some 11]\<rparr>, \<lparr>label = 3, cells = [Some 13]\<rparr>,
             \<lparr>label = 0, cells = [Some 200]\<rparr>]\<rparr>"

text \<open>Eleven values: nine times \<open>0\<close>, then \<open>1\<close> and \<open>5\<close>.\<close>

definition eleven :: dataframe where
  "eleven = \<lparr>columns = [(''a'', Float64)],
     rows = [\<lparr>label = 0, cells = [Some 0]\<rparr>, \<lparr>label = 1, cells = [Some 0]\<rparr>,
             \<lparr>label = 2, cells = [Some 0]\<rparr>, \<lparr>label = 3, cells = [Some 0]\<rparr>,
             \<lparr>label = 4, cells = [Some 0]\<rparr>, \<lparr>label = 5, cells = [Some 0]\<rparr>,
             \<lparr>label = 6, cells = [Some 0]\<rparr>, \<lparr>label = 7, cells = [Some 0]\<rparr>,
             \<lparr>label = 8, cells = [Some 0]\<rparr>, \<lparr>label = 9, cells = [Some 1]\<rparr>,
             \<lparr>label = 10, cells = [Some 5]\<rparr>]\<rparr>"

text \<open>A constant column with one missing value, and a column with nothing but missing values.\<close>

definition constant_column :: dataframe where
  "constant_column = \<lparr>columns = [(''a'', Float64)],
     rows = [\<lparr>label = 0, cells = [Some 7]\<rparr>, \<lparr>label = 1, cells = [None]\<rparr>,
             \<lparr>label = 2, cells = [Some 7]\<rparr>]\<rparr>"

definition all_missing :: dataframe where
  "all_missing = \<lparr>columns = [(''a'', Float64)],
     rows = [\<lparr>label = 0, cells = [None]\<rparr>, \<lparr>label = 1, cells = [None]\<rparr>]\<rparr>"

text \<open>A table with a numeric column and no rows.\<close>

definition no_rows :: dataframe where
  "no_rows = \<lparr>columns = [(''a'', Float64)], rows = []\<rparr>"

text \<open>A column of durations (in days), which is not numeric.\<close>

definition durations :: dataframe where
  "durations = \<lparr>columns = [(''d'', Timedelta64)],
     rows = [\<lparr>label = 0, cells = [Some 1]\<rparr>, \<lparr>label = 1, cells = [Some 2]\<rparr>,
             \<lparr>label = 2, cells = [Some 3]\<rparr>, \<lparr>label = 3, cells = [Some 4]\<rparr>,
             \<lparr>label = 4, cells = [Some 100]\<rparr>]\<rparr>"

text \<open>Two numeric columns with a column of durations between them.\<close>

definition mixed :: dataframe where
  "mixed = \<lparr>columns = [(''a'', Float64), (''d'', Timedelta64), (''b'', Float64)],
     rows = [\<lparr>label = 0, cells = [Some 1, Some 5, None]\<rparr>,
             \<lparr>label = 1, cells = [Some 2, None, Some 4]\<rparr>,
             \<lparr>label = 2, cells = [Some 3, Some 7, Some 6]\<rparr>]\<rparr>"

text \<open>
  The column \<^verbatim>\<open>[0.6, 0.6, 1.0, 0.2]\<close>, each value the double that Python reads.
\<close>

definition four :: dataframe where
  "four = \<lparr>columns = [(''a'', Float64)],
     rows = [\<lparr>label = 0, cells = [Some (round_binary64 (3/5))]\<rparr>,
             \<lparr>label = 1, cells = [Some (round_binary64 (3/5))]\<rparr>,
             \<lparr>label = 2, cells = [Some 1]\<rparr>,
             \<lparr>label = 3, cells = [Some (round_binary64 (1/5))]\<rparr>]\<rparr>"

text \<open>Ten values: nine times \<open>0\<close>, then \<open>7\<close>.\<close>

definition ten :: dataframe where
  "ten = \<lparr>columns = [(''a'', Float64)],
     rows = [\<lparr>label = 0, cells = [Some 0]\<rparr>, \<lparr>label = 1, cells = [Some 0]\<rparr>,
             \<lparr>label = 2, cells = [Some 0]\<rparr>, \<lparr>label = 3, cells = [Some 0]\<rparr>,
             \<lparr>label = 4, cells = [Some 0]\<rparr>, \<lparr>label = 5, cells = [Some 0]\<rparr>,
             \<lparr>label = 6, cells = [Some 0]\<rparr>, \<lparr>label = 7, cells = [Some 0]\<rparr>,
             \<lparr>label = 8, cells = [Some 0]\<rparr>, \<lparr>label = 9, cells = [Some 7]\<rparr>]\<rparr>"

section \<open>Properties\<close>

subsection \<open>Auxiliary facts\<close>

lemma and_then_Inr [simp]: "and_then (Inr x) f = f x"
  by (simp add: and_then_def)

lemma and_then_Inl [simp]: "and_then (Inl e) f = Inl e"
  by (simp add: and_then_def)

lemma mask_rows_map: "mask_rows (map p rs) rs = filter p rs"
  by (induction rs) (auto simp: mask_rows_def)

lemma column_pos_None: "column_pos cs c = None \<longleftrightarrow> c \<notin> fst ` set cs"
  by (induction cs) (auto split: if_splits)

lemma column_pos_Some:
  "column_pos cs c = Some i \<Longrightarrow> i < length cs \<and> fst (cs ! i) = c \<and> map_of cs c = Some (snd (cs ! i))"
  by (induction cs arbitrary: i) (auto split: if_splits)

lemma column_pos_map_of: "map_of cs c = Some t \<Longrightarrow> \<exists>i. column_pos cs c = Some i \<and> snd (cs ! i) = t"
  by (induction cs) (auto split: if_splits)

lemma column_dtype_pos:
  "column_dtype df c = Some t \<Longrightarrow> \<exists>i. column_pos (columns df) c = Some i \<and> snd (columns df ! i) = t"
  by (simp add: column_dtype_def column_pos_map_of)

lemma wf_column_pos:
  "c \<in> fst ` set (columns df) \<Longrightarrow> \<exists>i. column_pos (columns df) c = Some i"
  using column_pos_None [of "columns df" c] by auto

lemma getitem_column_Some:
  "column_pos (columns df) c = Some i \<Longrightarrow>
   getitem_column df c = Inr (snd (columns df ! i), map (value_at df c) (rows df))"
  by (simp add: getitem_column_def value_at_def)

lemma getitem_column_None:
  "column_pos (columns df) c = None \<Longrightarrow> getitem_column df c = Inl (KeyError c)"
  by (simp add: getitem_column_def)

lemma get_missing_eq:
  "column_pos (columns df) c = Some i \<Longrightarrow>
   get_missing df c = Inr (df\<lparr>rows := filter (\<lambda>r. value_at df c r = None) (rows df)\<rparr>)"
  by (simp add: get_missing_def getitem_column_Some getitem_mask_def mask_rows_map o_def)

lemma get_non_missing_eq:
  "column_pos (columns df) c = Some i \<Longrightarrow>
   get_non_missing df c = Inr (df\<lparr>rows := filter (\<lambda>r. value_at df c r \<noteq> None) (rows df)\<rparr>)"
  by (simp add: get_non_missing_def getitem_column_Some getitem_mask_def mask_rows_map o_def)

lemma value_at_rows_update [simp]: "value_at (df\<lparr>rows := rs\<rparr>) c = value_at df c"
  by (rule ext) (simp add: value_at_def)

lemma rows_update_twice: "df\<lparr>rows := rs\<rparr>\<lparr>rows := rs'\<rparr> = df\<lparr>rows := rs'\<rparr>"
  by simp

lemma rows_rows_update: "rows (df\<lparr>rows := rs\<rparr>) = rs"
  by simp

lemma present_filter: "present (map f (filter (\<lambda>r. f r \<noteq> None) rs)) = present (map f rs)"
  by (induction rs) (auto split: option.splits)

lemma present_map_the:
  "list_all (\<lambda>r. f r \<noteq> None) rs \<Longrightarrow> present (map f rs) = map (\<lambda>r. the (f r)) rs"
  by (induction rs) (auto split: option.splits)

lemma present_Nil_iff: "present a = [] \<longleftrightarrow> list_all (\<lambda>v. v = None) a"
  by (induction a) (auto split: option.splits)

lemma present_map_Some [simp]: "present (map Some xs) = xs"
  by (induction xs) simp_all

lemma map_filter_present:
  "map f (filter (\<lambda>r. f r \<noteq> None) rs) = map Some (present (map f rs))"
  by (induction rs) (auto split: option.splits)

lemma column_values_rows_update:
  "column_values (df\<lparr>rows := filter (\<lambda>r. value_at df c r \<noteq> None) (rows df)\<rparr>) c = column_values df c"
  using present_filter [of "value_at df c" "rows df"] by (simp add: column_values_def)

lemma column_values_Nil_iff:
  "column_values df c = [] \<longleftrightarrow> filter (\<lambda>r. value_at df c r \<noteq> None) (rows df) = []"
  by (simp add: column_values_def present_Nil_iff list_all_iff filter_empty_conv del: not_None_eq)

text \<open>The column that the rule receives from \<open>get_outliers\<close>.\<close>

lemma non_missing_column:
  "map (value_at df c) (filter (\<lambda>r. value_at df c r \<noteq> None) (rows df)) = present_cells df c"
  by (simp only: present_cells_def column_values_def map_filter_present)

lemma filter_absorb:
  assumes "\<And>r. P r \<Longrightarrow> Q r"
  shows "filter P (filter Q rs) = filter P rs"
  using assms by (induction rs) auto

lemma get_outliers_non_missing:
  assumes "column_pos (columns df) c = Some i"
  shows "get_outliers nu self df c =
     outlier_calculation_methods (calculation_method self) nu
       (df\<lparr>rows := filter (\<lambda>r. value_at df c r \<noteq> None) (rows df)\<rparr>) c"
  unfolding get_outliers_def get_non_missing_eq [OF assms] and_then_Inr ..

subsection \<open>The two rules, for any arithmetic\<close>

lemma interquartile_eq:
  assumes "column_pos (columns df) c = Some i"
  shows "calculate_outliers_interquartile nu df c =
     and_then (series_quantile nu (snd (columns df ! i)) (map (value_at df c) (rows df)) 0.25)
       (\<lambda>Q1.
     and_then (series_quantile nu (snd (columns df ! i)) (map (value_at df c) (rows df)) 0.75)
       (\<lambda>Q3.
       Inr (df\<lparr>rows := filter (\<lambda>r.
          lt_nan (value_at df c r)
            (np_subtract nu Q1 (np_multiply nu (Some 1.5) (np_subtract nu Q3 Q1))) \<or>
          gt_nan (value_at df c r)
            (np_add nu Q3 (np_multiply nu (Some 1.5) (np_subtract nu Q3 Q1)))) (rows df)\<rparr>)))"
  unfolding calculate_outliers_interquartile_def getitem_column_Some [OF assms]
  by (simp add: Let_def getitem_mask_def o_def mask_rows_map)

lemma lt_nan_None [simp]: "lt_nan None b = False"
  by (simp add: lt_nan_def)

lemma gt_nan_None [simp]: "gt_nan None b = False"
  by (simp add: gt_nan_def)

lemma get_outliers_interquartile:
  assumes pos: "column_pos (columns df) c = Some i"
    and m: "calculation_method self = INTERQUARTILE"
  shows "get_outliers nu self df c =
     and_then (series_quantile nu (snd (columns df ! i)) (present_cells df c) 0.25) (\<lambda>Q1.
     and_then (series_quantile nu (snd (columns df ! i)) (present_cells df c) 0.75) (\<lambda>Q3.
       Inr (df\<lparr>rows := filter (\<lambda>r.
          lt_nan (value_at df c r)
            (np_subtract nu Q1 (np_multiply nu (Some 1.5) (np_subtract nu Q3 Q1))) \<or>
          gt_nan (value_at df c r)
            (np_add nu Q3 (np_multiply nu (Some 1.5) (np_subtract nu Q3 Q1)))) (rows df)\<rparr>)))"
proof -
  let ?nm = "df\<lparr>rows := filter (\<lambda>r. value_at df c r \<noteq> None) (rows df)\<rparr>"
  have pos': "column_pos (columns ?nm) c = Some i"
    using pos by simp
  have cols: "columns ?nm = columns df"
    by simp
  have absorb: "filter (\<lambda>r. lt_nan (value_at df c r) lo \<or> gt_nan (value_at df c r) hi)
                  (filter (\<lambda>r. value_at df c r \<noteq> None) (rows df))
              = filter (\<lambda>r. lt_nan (value_at df c r) lo \<or> gt_nan (value_at df c r) hi) (rows df)"
    for lo hi
    by (rule filter_absorb) (auto simp: lt_nan_def gt_nan_def split: option.splits)
  show ?thesis
    unfolding get_outliers_non_missing [OF pos] m outlier_calculation_methods.simps
      interquartile_eq [OF pos'] cols value_at_rows_update rows_rows_update rows_update_twice
      non_missing_column absorb ..
qed


lemma zscore_Nil [simp]: "zscore nu [] = []"
  by (simp add: zscore_def)

lemma isconst_map_Some:
  "list_all (\<lambda>x. x \<noteq> None \<and> x = hd (map Some xs)) (map Some xs) \<longleftrightarrow> list_all (\<lambda>x. x = hd xs) xs"
  by (cases xs) (auto simp: list_all_iff)

lemma zscore_present:
  "zscore nu (map Some xs) =
     (if list_all (\<lambda>x. x = hd xs) xs then map (\<lambda>_. None) xs
      else map (\<lambda>x. np_divide nu (np_subtract nu (Some x) (array_mean nu (map Some xs)))
                      (array_std nu 0 (map Some xs))) xs)"
proof (cases "xs = []")
  case True
  then show ?thesis by simp
next
  case False
  then show ?thesis
    unfolding zscore_def isconst_map_Some Let_def by (simp add: o_def)
qed

lemma zscore_rule_eq:
  assumes "column_pos (columns df) c = Some i"
  shows "calculate_outliers_zscore nu df c =
     Inr (df\<lparr>rows := mask_rows
            (map (\<lambda>z. gt_nan (abs_nan z) (Some 3)) (zscore nu (map (value_at df c) (rows df))))
            (rows df)\<rparr>)"
  unfolding calculate_outliers_zscore_def getitem_column_Some [OF assms]
  by (simp add: Let_def getitem_mask_def o_def)

lemma zscore_rule_empty:
  assumes pos: "column_pos (columns df) c = Some i" and "rows df = []"
  shows "calculate_outliers_zscore nu df c = Inr df"
  using assms(2) unfolding zscore_rule_eq [OF pos] by (simp add: mask_rows_def)

lemma mask_rows_False: "mask_rows (map (\<lambda>_. False) rs) rs = []"
  by (simp add: mask_rows_map)

lemma get_outliers_zscore:
  assumes pos: "column_pos (columns df) c = Some i"
    and m: "calculation_method self = ZSCORE"
  shows "get_outliers nu self df c =
     Inr (df\<lparr>rows :=
       (if list_all (\<lambda>x. x = hd (column_values df c)) (column_values df c) then []
        else filter (\<lambda>r. value_at df c r \<noteq> None \<and>
               gt_nan (abs_nan (np_divide nu
                  (np_subtract nu (value_at df c r) (array_mean nu (present_cells df c)))
                  (array_std nu 0 (present_cells df c)))) (Some 3)) (rows df))\<rparr>)"
proof -
  let ?Q = "\<lambda>r. value_at df c r \<noteq> None"
  let ?nm = "df\<lparr>rows := filter ?Q (rows df)\<rparr>"
  let ?xs = "column_values df c"
  have pos': "column_pos (columns ?nm) c = Some i"
    using pos by simp
  have col: "map (value_at df c) (filter ?Q (rows df)) = map Some ?xs"
    using non_missing_column [of df c] by (simp only: present_cells_def)
  have len: "length (filter ?Q (rows df)) = length ?xs"
    using arg_cong [OF col, of length] by simp
  show ?thesis
  proof (cases "list_all (\<lambda>x. x = hd ?xs) ?xs")
    case True
    have "map (\<lambda>z. gt_nan (abs_nan z) (Some 3)) (map (\<lambda>_. None) ?xs)
        = map (\<lambda>_. False) (filter ?Q (rows df))"
      using len by (simp add: abs_nan_def map_replicate_const)
    then show ?thesis
      unfolding get_outliers_non_missing [OF pos] m outlier_calculation_methods.simps
        zscore_rule_eq [OF pos'] value_at_rows_update rows_rows_update rows_update_twice col
        zscore_present
      using True by (simp only: if_True mask_rows_False)
  next
    case False
    let ?F = "\<lambda>v. np_divide nu (np_subtract nu v (array_mean nu (map Some ?xs)))
                 (array_std nu 0 (map Some ?xs))"
    have "map (\<lambda>x. ?F (Some x)) ?xs = map ?F (map Some ?xs)"
      by (simp add: o_def)
    also have "\<dots> = map (\<lambda>r. ?F (value_at df c r)) (filter ?Q (rows df))"
      by (simp only: col [symmetric] map_map o_def)
    finally have z: "map (\<lambda>x. ?F (Some x)) ?xs
        = map (\<lambda>r. ?F (value_at df c r)) (filter ?Q (rows df))" .
    have sel: "mask_rows (map (\<lambda>z. gt_nan (abs_nan z) (Some 3))
                 (map (\<lambda>r. ?F (value_at df c r)) (filter ?Q (rows df)))) (filter ?Q (rows df))
        = filter (\<lambda>r. ?Q r \<and> gt_nan (abs_nan (?F (value_at df c r))) (Some 3)) (rows df)"
      by (simp only: map_map o_def mask_rows_map filter_filter conj_commute)
    show ?thesis
      unfolding get_outliers_non_missing [OF pos] m outlier_calculation_methods.simps
        zscore_rule_eq [OF pos'] value_at_rows_update rows_rows_update rows_update_twice col
        zscore_present
      using False by (simp only: if_False z sel present_cells_def)
  qed
qed

text \<open>
  Whatever the arithmetic, the rows that \<open>get_outliers\<close> returns are rows of the table
  with a value in the column, in the order of the table.
\<close>

lemma get_outliers_filter:
  assumes pos: "column_pos (columns df) c = Some i"
    and out: "get_outliers nu self df c = Inr outl"
  shows "\<exists>P. outl = df\<lparr>rows := filter P (rows df)\<rparr> \<and> (\<forall>r. P r \<longrightarrow> value_at df c r \<noteq> None)"
proof (cases "calculation_method self")
  case INTERQUARTILE
  note eq = get_outliers_interquartile [OF pos INTERQUARTILE, of nu]
  obtain Q1 Q3 where
    "outl = df\<lparr>rows := filter (\<lambda>r.
          lt_nan (value_at df c r)
            (np_subtract nu Q1 (np_multiply nu (Some 1.5) (np_subtract nu Q3 Q1))) \<or>
          gt_nan (value_at df c r)
            (np_add nu Q3 (np_multiply nu (Some 1.5) (np_subtract nu Q3 Q1)))) (rows df)\<rparr>"
    using out unfolding eq by (auto simp: and_then_def split: sum.splits)
  then show ?thesis
    by (intro exI conjI, assumption) (auto simp: lt_nan_def gt_nan_def split: option.splits)
next
  case ZSCORE
  note eq = get_outliers_zscore [OF pos ZSCORE, of nu]
  show ?thesis
  proof (cases "list_all (\<lambda>x. x = hd (column_values df c)) (column_values df c)")
    case True
    then have "outl = df\<lparr>rows := filter (\<lambda>r. False) (rows df)\<rparr>"
      using out unfolding eq by simp
    then show ?thesis
      by (intro exI conjI, assumption) simp
  next
    case False
    then have "outl = df\<lparr>rows := filter (\<lambda>r. value_at df c r \<noteq> None \<and>
               gt_nan (abs_nan (np_divide nu
                  (np_subtract nu (value_at df c r) (array_mean nu (present_cells df c)))
                  (array_std nu 0 (present_cells df c)))) (Some 3)) (rows df)\<rparr>"
      using out unfolding eq by simp
    then show ?thesis
      by (intro exI conjI, assumption) blast
  qed
qed


subsection \<open>The two rules in exact arithmetic\<close>

lemma exact_fields [simp]:
  "float_mul exact = (\<lambda>x y. x * y)"
  "float_truediv exact = (\<lambda>x y. x / y)"
  "builtin_round exact = round_decimal"
  "np_subtract exact = sub_nan"
  "np_add exact = add_nan"
  "np_multiply exact = mul_nan"
  "np_divide exact = div_nan"
  "series_quantile exact = (\<lambda>t a q. Inr (quantile a q))"
  "array_mean exact = mean_nan"
  "array_std exact = std_nan"
  by (simp_all add: exact_def)

lemma sum_list_const: "list_all (\<lambda>x. x = k) xs \<Longrightarrow> sum_list xs = real (length xs) * (k::real)"
  by (induction xs) (auto simp: algebra_simps)

lemma mean_const: "xs \<noteq> [] \<Longrightarrow> list_all (\<lambda>x. x = k) xs \<Longrightarrow> mean xs = k"
  by (simp add: mean_def sum_list_const)

lemma sum_list_zero: "list_all (\<lambda>x. f x = (0::real)) xs \<Longrightarrow> sum_list (map f xs) = 0"
  by (induction xs) auto

lemma std_const:
  assumes "xs \<noteq> []" and "list_all (\<lambda>x. x = k) xs"
  shows "std xs = 0"
proof -
  have "list_all (\<lambda>x. (x - mean xs)\<^sup>2 = 0) xs"
    using assms by (simp add: mean_const [OF assms] list_all_iff)
  then show ?thesis
    by (simp add: std_def sum_list_zero)
qed

lemma std_pos_not_const:
  assumes "0 < std xs"
  shows "xs \<noteq> [] \<and> \<not> list_all (\<lambda>x. x = hd xs) xs"
proof (cases "xs = []")
  case True
  then show ?thesis using assms by (simp add: std_def)
next
  case False
  then show ?thesis using assms std_const [of xs "hd xs"] by auto
qed

lemma abs_gt_three_iff:
  fixes d s :: real
  assumes "0 < s"
  shows "3 < \<bar>d / s\<bar> \<longleftrightarrow> 3 * s < \<bar>d\<bar>"
  using assms by (simp add: abs_divide pos_less_divide_eq)

lemma mean_nan_present: "xs \<noteq> [] \<Longrightarrow> mean_nan (map Some xs) = Some (mean xs)"
  by (auto simp: mean_nan_def)

lemma std_nan_present: "xs \<noteq> [] \<Longrightarrow> std_nan 0 (map Some xs) = Some (std xs)"
  by (auto simp: std_nan_def std_def)

lemma exact_flag_interquartile:
  "(lt_nan v (sub_nan (quantile (map Some xs) q1)
       (mul_nan (Some k) (sub_nan (quantile (map Some xs) q3) (quantile (map Some xs) q1)))) \<or>
    gt_nan v (add_nan (quantile (map Some xs) q3)
       (mul_nan (Some k) (sub_nan (quantile (map Some xs) q3) (quantile (map Some xs) q1)))))
   \<longleftrightarrow> (\<exists>x. v = Some x \<and> xs \<noteq> [] \<and>
          (x < quantile_linear xs q1 - k * (quantile_linear xs q3 - quantile_linear xs q1) \<or>
           x > quantile_linear xs q3 + k * (quantile_linear xs q3 - quantile_linear xs q1)))"
  by (cases v)
     (simp_all add: quantile_def lt_nan_def gt_nan_def sub_nan_def add_nan_def mul_nan_def
        Let_def)

lemma get_outliers_interquartile_eq:
  assumes pos: "column_pos (columns df) c = Some i"
    and m: "calculation_method self = INTERQUARTILE"
  shows "get_outliers exact self df c =
     Inr (df\<lparr>rows := filter (\<lambda>r.
        \<exists>v. value_at df c r = Some v \<and> column_values df c \<noteq> [] \<and>
          (v < quantile_linear (column_values df c) (1/4)
                 - 3/2 * (quantile_linear (column_values df c) (3/4)
                          - quantile_linear (column_values df c) (1/4))
           \<or> v > quantile_linear (column_values df c) (3/4)
                 + 3/2 * (quantile_linear (column_values df c) (3/4)
                          - quantile_linear (column_values df c) (1/4)))) (rows df)\<rparr>)"
proof -
  have q: "(0.25::real) = 1/4" "(0.75::real) = 3/4" "(1.5::real) = 3/2"
    by simp_all
  show ?thesis
    unfolding get_outliers_interquartile [OF pos m] exact_fields and_then_Inr present_cells_def
      exact_flag_interquartile q ..
qed

lemma exact_flag_zscore:
  assumes "xs \<noteq> []"
  shows "(v \<noteq> None \<and> gt_nan (abs_nan (div_nan (sub_nan v (mean_nan (map Some xs)))
                                     (std_nan 0 (map Some xs)))) (Some 3))
     \<longleftrightarrow> (\<exists>x. v = Some x \<and> 3 < \<bar>(x - mean xs) / std xs\<bar>)"
  by (cases v)
     (simp_all add: mean_nan_present [OF assms] std_nan_present [OF assms] gt_nan_def
        abs_nan_def div_nan_def sub_nan_def)

lemma get_outliers_zscore_eq:
  assumes pos: "column_pos (columns df) c = Some i"
    and m: "calculation_method self = ZSCORE"
  shows "get_outliers exact self df c =
     Inr (df\<lparr>rows := filter (\<lambda>r.
        \<exists>v. value_at df c r = Some v \<and>
          \<not> list_all (\<lambda>x. x = hd (column_values df c)) (column_values df c) \<and>
          3 < \<bar>(v - mean (column_values df c)) / std (column_values df c)\<bar>) (rows df)\<rparr>)"
proof (cases "list_all (\<lambda>x. x = hd (column_values df c)) (column_values df c)")
  case True
  then show ?thesis
    unfolding get_outliers_zscore [OF pos m] by simp
next
  case False
  then have ne: "column_values df c \<noteq> []"
    by auto
  show ?thesis
    unfolding get_outliers_zscore [OF pos m] exact_fields present_cells_def
      exact_flag_zscore [OF ne]
    using False by simp
qed

text \<open>In exact arithmetic \<open>get_outliers\<close> returns for every column of the table.\<close>

lemma get_outliers_exact_returns:
  assumes pos: "column_pos (columns df) c = Some i"
  shows "\<exists>P. get_outliers exact self df c = Inr (df\<lparr>rows := filter P (rows df)\<rparr>) \<and>
             (\<forall>r. P r \<longrightarrow> value_at df c r \<noteq> None)"
proof (cases "calculation_method self")
  case INTERQUARTILE
  show ?thesis
    unfolding get_outliers_interquartile_eq [OF pos INTERQUARTILE]
    by (intro exI conjI, rule refl) auto
next
  case ZSCORE
  show ?thesis
    unfolding get_outliers_zscore_eq [OF pos ZSCORE]
    by (intro exI conjI, rule refl) auto
qed

subsection \<open>Evaluation in binary floating-point arithmetic\<close>

lemma binade_numeral:
  "binade (numeral k) x =
     (if 2 \<le> x then binade (pred_numeral k) (x / 2) + 1
      else if x < 1 then binade (pred_numeral k) (2 * x) - 1
      else 0)"
  by (simp add: numeral_eq_Suc)

lemmas round_binary64_eval = round_binary64_def binade_numeral pow2_def round_half_even_def Let_def

lemma binary64_fields [simp]:
  "float_mul (binary64 lib) = (\<lambda>x y. round_binary64 (x * y))"
  "float_truediv (binary64 lib) = (\<lambda>x y. round_binary64 (x / y))"
  "builtin_round (binary64 lib) = (\<lambda>x digits. round_binary64 (round_decimal x digits))"
  "np_subtract (binary64 lib) = float64_op (\<lambda>x y. x - y)"
  "np_add (binary64 lib) = float64_op (\<lambda>x y. x + y)"
  "np_multiply (binary64 lib) = float64_op (\<lambda>x y. x * y)"
  "np_divide (binary64 lib) = float64_divide"
  "series_quantile (binary64 lib) = series_quantile lib"
  "array_mean (binary64 lib) = array_mean lib"
  "array_std (binary64 lib) = array_std lib"
  by (simp_all add: binary64_def)

text \<open>A few doubles, as fractions.\<close>

lemma doubles:
  "round_binary64 (3/5) = 5404319552844595 / 2 ^ 53"
  "round_binary64 (1/5) = 3602879701896397 / 2 ^ 54"
  "round_binary64 (7/10) = 3152519739159347 / 2 ^ 52"
  "round_binary64 1 = 1"
  "round_binary64 (1/2) = 1/2"
  by (simp_all add: round_binary64_eval)

subsection \<open>The interquartile rule\<close>

lemma quantile_scenario:
  "column_values scenario ''a'' = [10, 12, 11, 13, 200]"
  "quantile_linear [10, 12, 11, 13, 200] (1/4) = 11"
  "quantile_linear [10, 12, 11, 13, 200] (3/4) = 13"
  by (simp_all add: column_values_def scenario_def value_at_def quantile_linear_def Let_def)

lemma get_outliers_scenario:
  "get_outliers exact (init (Some INTERQUARTILE)) scenario ''a''
     = Inr (scenario\<lparr>rows := [\<lparr>label = 5, cells = [Some 200]\<rparr>]\<rparr>)"
proof -
  have pos: "column_pos (columns scenario) ''a'' = Some 0"
    and m: "calculation_method (init (Some INTERQUARTILE)) = INTERQUARTILE"
    by (simp_all add: scenario_def init_def)
  have rs: "rows scenario = [\<lparr>label = 0, cells = [Some 10]\<rparr>, \<lparr>label = 1, cells = [Some 12]\<rparr>,
             \<lparr>label = 2, cells = [Some 11]\<rparr>, \<lparr>label = 3, cells = [Some 13]\<rparr>,
             \<lparr>label = 4, cells = [None]\<rparr>, \<lparr>label = 5, cells = [Some 200]\<rparr>]"
    by (simp add: scenario_def)
  show ?thesis
    unfolding get_outliers_interquartile_eq [OF pos m]
    by (simp add: quantile_scenario rs value_at_def pos)
qed



text \<open>
  The rule in doubles, on the column \<^verbatim>\<open>[0.6, 0.6, 1.0, 0.2]\<close>. When
  \<^verbatim>\<open>Series.quantile\<close> returns the doubles \<open>0.5\<close> and \<open>0.7\<close>, the fences are
  \<open>0.20000000000000007\<close> and \<open>0.9999999999999999\<close>, and the rows with \<open>1.0\<close> and
  \<open>0.2\<close> are returned. Without rounding the fences would be \<open>0.2\<close> and \<open>1\<close>.
\<close>

lemma fences_doubles:
  "float64_op (\<lambda>x y. x - y) (Some (1/2))
     (float64_op (\<lambda>x y. x * y) (Some 1.5)
        (float64_op (\<lambda>x y. x - y) (Some (round_binary64 (7/10))) (Some (1/2))))
   = Some (1801439850948199 / 2 ^ 53)"
  "float64_op (\<lambda>x y. x + y) (Some (round_binary64 (7/10)))
     (float64_op (\<lambda>x y. x * y) (Some 1.5)
        (float64_op (\<lambda>x y. x - y) (Some (round_binary64 (7/10))) (Some (1/2))))
   = Some (9007199254740991 / 2 ^ 53)"
  by (simp_all add: float64_op_def round_binary64_eval)

lemma interquartile_doubles:
  assumes "series_quantile lib Float64 (present_cells four ''a'') 0.25 = Inr (Some (1/2))"
    and "series_quantile lib Float64 (present_cells four ''a'') 0.75
           = Inr (Some (round_binary64 (7/10)))"
  shows "get_outliers (binary64 lib) (init (Some INTERQUARTILE)) four ''a''
     = Inr (four\<lparr>rows := [\<lparr>label = 2, cells = [Some 1]\<rparr>,
                           \<lparr>label = 3, cells = [Some (round_binary64 (1/5))]\<rparr>]\<rparr>)"
proof -
  have pos: "column_pos (columns four) ''a'' = Some 0"
    and m: "calculation_method (init (Some INTERQUARTILE)) = INTERQUARTILE"
    and t: "snd (columns four ! 0) = Float64"
    by (simp_all add: four_def init_def)
  have rs: "rows four = [\<lparr>label = 0, cells = [Some (round_binary64 (3/5))]\<rparr>,
             \<lparr>label = 1, cells = [Some (round_binary64 (3/5))]\<rparr>,
             \<lparr>label = 2, cells = [Some 1]\<rparr>,
             \<lparr>label = 3, cells = [Some (round_binary64 (1/5))]\<rparr>]"
    by (simp add: four_def)
  note d = doubles(1,2)
  have flags: "\<not> lt_nan (Some (round_binary64 (3/5))) (Some (1801439850948199 / 2 ^ 53))"
    "\<not> gt_nan (Some (round_binary64 (3/5))) (Some (9007199254740991 / 2 ^ 53))"
    "gt_nan (Some 1) (Some (9007199254740991 / 2 ^ 53))"
    "lt_nan (Some (round_binary64 (1/5))) (Some (1801439850948199 / 2 ^ 53))"
    by (simp_all add: lt_nan_def gt_nan_def d)
  show ?thesis
    unfolding get_outliers_interquartile [OF pos m] t binary64_fields assms and_then_Inr
      fences_doubles
    using flags by (simp add: rs value_at_def pos)
qed

subsection \<open>The z-score rule\<close>

lemma three_sqrt_less_iff:
  fixes a v :: real
  assumes "0 \<le> a" and "0 \<le> v"
  shows "3 * sqrt v < a \<longleftrightarrow> 9 * v < a\<^sup>2"
proof -
  have "3 * sqrt v = sqrt (9 * v)"
    by (simp add: real_sqrt_mult)
  moreover have "a = sqrt (a\<^sup>2)"
    using assms(1) by simp
  ultimately have "3 * sqrt v < a \<longleftrightarrow> sqrt (9 * v) < sqrt (a\<^sup>2)"
    by simp
  then show ?thesis
    by (simp only: real_sqrt_less_iff)
qed

lemma stats_eleven:
  "column_values eleven ''a'' = [0, 0, 0, 0, 0, 0, 0, 0, 0, 1, 5]"
  "mean [0, 0, 0, 0, 0, 0, 0, 0, 0, 1, 5] = 6/11"
  "std [0, 0, 0, 0, 0, 0, 0, 0, 0, 1, 5] = sqrt (250/121)"
  "std_sample [0, 0, 0, 0, 0, 0, 0, 0, 0, 1, 5] = sqrt (25/11)"
  by (simp_all add: column_values_def eleven_def value_at_def mean_def std_def std_sample_def
        power2_eq_square)

lemma flags_eleven:
  "\<not> 3 * sqrt (250/121) < \<bar>0 - 6/11 :: real\<bar>"
  "\<not> 3 * sqrt (250/121) < \<bar>1 - 6/11 :: real\<bar>"
  "3 * sqrt (250/121) < \<bar>5 - 6/11 :: real\<bar>"
  "\<not> 3 * sqrt (25/11) < \<bar>5 - 6/11 :: real\<bar>"
  using three_sqrt_less_iff [of "6/11" "250/121"] three_sqrt_less_iff [of "5/11" "250/121"]
    three_sqrt_less_iff [of "49/11" "250/121"] three_sqrt_less_iff [of "49/11" "25/11"]
  by (simp_all add: power2_eq_square)

lemma get_outliers_eleven:
  "get_outliers exact (init None) eleven ''a''
     = Inr (eleven\<lparr>rows := [\<lparr>label = 10, cells = [Some 5]\<rparr>]\<rparr>)"
proof -
  have pos: "column_pos (columns eleven) ''a'' = Some 0"
    and m: "calculation_method (init None) = ZSCORE"
    by (simp_all add: eleven_def init_def)
  have sd: "0 < sqrt (250/121 :: real)"
    by simp
  have nc: "\<not> list_all (\<lambda>x. x = hd (column_values eleven ''a'')) (column_values eleven ''a'')"
    by (simp add: stats_eleven)
  have rs: "rows eleven = [\<lparr>label = 0, cells = [Some 0]\<rparr>, \<lparr>label = 1, cells = [Some 0]\<rparr>,
             \<lparr>label = 2, cells = [Some 0]\<rparr>, \<lparr>label = 3, cells = [Some 0]\<rparr>,
             \<lparr>label = 4, cells = [Some 0]\<rparr>, \<lparr>label = 5, cells = [Some 0]\<rparr>,
             \<lparr>label = 6, cells = [Some 0]\<rparr>, \<lparr>label = 7, cells = [Some 0]\<rparr>,
             \<lparr>label = 8, cells = [Some 0]\<rparr>, \<lparr>label = 9, cells = [Some 1]\<rparr>,
             \<lparr>label = 10, cells = [Some 5]\<rparr>]"
    by (simp add: eleven_def)
  show ?thesis
    unfolding get_outliers_zscore_eq [OF pos m] abs_gt_three_iff [OF sd] stats_eleven
    using nc flags_eleven
    by (simp add: abs_gt_three_iff [OF sd] stats_eleven rs value_at_def pos)
qed

text \<open>
  Claim C3, as amended. With the ZSCORE method, let \<open>m\<close> be the mean and \<open>s\<close> the
  standard deviation with divisor \<open>n\<close> (the population formula, \<^verbatim>\<open>ddof=0\<close>, the
  default of \<^verbatim>\<open>scipy.stats.zscore\<close>) that numpy computes for the present values of a
  column. If these values are not all equal, \<^verbatim>\<open>get_outliers\<close> returns exactly the
  rows of the table whose value \<open>v\<close> in the column is present and whose z-score, the
  quotient \<open>(v - m) / s\<close> as the floating-point arithmetic gives it, is in absolute value
  greater than \<open>3\<close>. The threshold \<open>3\<close> is a constant of the rule.
\<close>

theorem zscore_rule:
  assumes "wf_dataframe df"
    and "column_dtype df c = Some t"
    and "calculation_method self = ZSCORE"
    and "\<not> list_all (\<lambda>x. x = hd (column_values df c)) (column_values df c)"
  shows "get_outliers nu self df c =
     Inr (df\<lparr>rows := filter (\<lambda>r. value_at df c r \<noteq> None \<and>
        gt_nan (abs_nan (np_divide nu
           (np_subtract nu (value_at df c r) (array_mean nu (present_cells df c)))
           (array_std nu 0 (present_cells df c)))) (Some 3)) (rows df)\<rparr>)"
proof -
  obtain i where pos: "column_pos (columns df) c = Some i"
    using assms(2) column_dtype_pos by blast
  show ?thesis
    unfolding get_outliers_zscore [OF pos assms(3)] using assms(4) by simp
qed

text \<open>
  In exact arithmetic, on the column with nine times \<open>0\<close>, then \<open>1\<close> and \<open>5\<close>: the
  mean is \<open>6/11\<close>, the standard deviation \<open>sqrt (250/121)\<close>, and the row with \<open>5\<close>
  is the one outlier.
\<close>

theorem zscore_rule_witness:
  "wf_dataframe eleven \<and> column_dtype eleven ''a'' = Some Float64 \<and>
   calculation_method (init None) = ZSCORE \<and>
   \<not> list_all (\<lambda>x. x = hd (column_values eleven ''a'')) (column_values eleven ''a'') \<and>
   array_mean exact (present_cells eleven ''a'') = Some (6/11) \<and>
   array_std exact 0 (present_cells eleven ''a'') = Some (sqrt (250/121)) \<and>
   get_outliers exact (init None) eleven ''a''
     = Inr (eleven\<lparr>rows := filter (\<lambda>r. value_at eleven ''a'' r \<noteq> None \<and>
        gt_nan (abs_nan (np_divide exact
           (np_subtract exact (value_at eleven ''a'' r) (Some (6/11)))
           (Some (sqrt (250/121))))) (Some 3)) (rows eleven)\<rparr>) \<and>
   get_outliers exact (init None) eleven ''a''
     = Inr (eleven\<lparr>rows := [\<lparr>label = 10, cells = [Some 5]\<rparr>]\<rparr>)"
proof -
  have h: "wf_dataframe eleven" "column_dtype eleven ''a'' = Some Float64"
    "calculation_method (init None) = ZSCORE"
    by (simp_all add: wf_dataframe_def eleven_def column_dtype_def init_def)
  have nc: "\<not> list_all (\<lambda>x. x = hd (column_values eleven ''a'')) (column_values eleven ''a'')"
    by (simp add: stats_eleven)
  have st: "array_mean exact (present_cells eleven ''a'') = Some (6/11)"
    "array_std exact 0 (present_cells eleven ''a'') = Some (sqrt (250/121))"
    using mean_nan_present [of "column_values eleven ''a''"]
      std_nan_present [of "column_values eleven ''a''"]
    by (simp_all add: present_cells_def stats_eleven)
  show ?thesis
    using h nc st zscore_rule [OF h nc, of exact] get_outliers_eleven
    by (simp only: simp_thms)
qed

text \<open>
  Claim C3 as stated, with the sample standard deviation (divisor \<open>n - 1\<close>), fails on
  the same column: the row with \<open>5\<close> is returned as an outlier, yet its distance
  \<open>49/11\<close> from the mean is not greater than three times the sample standard deviation
  \<open>sqrt (25/11)\<close>. The margins are wide; rounding does not change the outcome.
\<close>

theorem zscore_sample_std_counterexample:
  "get_outliers exact (init None) eleven ''a''
     = Inr (eleven\<lparr>rows := [\<lparr>label = 10, cells = [Some 5]\<rparr>]\<rparr>) \<and>
   value_at eleven ''a'' \<lparr>label = 10, cells = [Some 5]\<rparr> = Some 5 \<and>
   0 < std_sample (column_values eleven ''a'') \<and>
   \<not> \<bar>5 - mean (column_values eleven ''a'')\<bar> > 3 * std_sample (column_values eleven ''a'')"
proof -
  have "value_at eleven ''a'' \<lparr>label = 10, cells = [Some 5]\<rparr> = Some 5"
    by (simp add: value_at_def eleven_def)
  then show ?thesis
    using get_outliers_eleven flags_eleven(4) by (simp add: stats_eleven)
qed

text \<open>
  The rule in doubles, on the column with nine times \<open>0\<close> and then \<open>7\<close>. When numpy
  returns the mean \<open>0.7\<close> and the standard deviation \<open>2.0999999999999996\<close>, the
  z-score of \<open>7\<close> is \<open>3.0000000000000004\<close> and its row is returned. Without rounding
  the z-score would be \<open>3\<close>, which is not greater than the threshold.
\<close>

lemma zscore_doubles:
  assumes "array_mean lib (present_cells ten ''a'') = Some (round_binary64 (7/10))"
    and "array_std lib 0 (present_cells ten ''a'') = Some (1182194902184755 / 2 ^ 49)"
  shows "get_outliers (binary64 lib) (init None) ten ''a''
     = Inr (ten\<lparr>rows := [\<lparr>label = 9, cells = [Some 7]\<rparr>]\<rparr>)"
    and "float64_divide (float64_op (\<lambda>x y. x - y) (Some 7) (Some (round_binary64 (7/10))))
           (Some (1182194902184755 / 2 ^ 49)) = Some (6755399441055745 / 2 ^ 51)"
proof -
  have pos: "column_pos (columns ten) ''a'' = Some 0"
    and m: "calculation_method (init None) = ZSCORE"
    by (simp_all add: ten_def init_def)
  have rs: "rows ten = [\<lparr>label = 0, cells = [Some 0]\<rparr>, \<lparr>label = 1, cells = [Some 0]\<rparr>,
             \<lparr>label = 2, cells = [Some 0]\<rparr>, \<lparr>label = 3, cells = [Some 0]\<rparr>,
             \<lparr>label = 4, cells = [Some 0]\<rparr>, \<lparr>label = 5, cells = [Some 0]\<rparr>,
             \<lparr>label = 6, cells = [Some 0]\<rparr>, \<lparr>label = 7, cells = [Some 0]\<rparr>,
             \<lparr>label = 8, cells = [Some 0]\<rparr>, \<lparr>label = 9, cells = [Some 7]\<rparr>]"
    by (simp add: ten_def)
  have cv: "column_values ten ''a'' = [0, 0, 0, 0, 0, 0, 0, 0, 0, 7]"
    by (simp add: column_values_def ten_def value_at_def)
  have nc: "\<not> list_all (\<lambda>x. x = hd (column_values ten ''a'')) (column_values ten ''a'')"
    by (simp add: cv)
  show z7: "float64_divide (float64_op (\<lambda>x y. x - y) (Some 7) (Some (round_binary64 (7/10))))
           (Some (1182194902184755 / 2 ^ 49)) = Some (6755399441055745 / 2 ^ 51)"
    by (simp add: float64_op_def float64_divide_def round_binary64_eval)
  have z0: "float64_divide (float64_op (\<lambda>x y. x - y) (Some 0) (Some (round_binary64 (7/10))))
           (Some (1182194902184755 / 2 ^ 49)) = Some (- (6004799503160662 / 2 ^ 54))"
    by (simp add: float64_op_def float64_divide_def round_binary64_eval)
  have flags: "gt_nan (abs_nan (float64_divide
           (float64_op (\<lambda>x y. x - y) (Some 7) (Some (round_binary64 (7/10))))
           (Some (1182194902184755 / 2 ^ 49)))) (Some 3)"
    "\<not> gt_nan (abs_nan (float64_divide
           (float64_op (\<lambda>x y. x - y) (Some 0) (Some (round_binary64 (7/10))))
           (Some (1182194902184755 / 2 ^ 49)))) (Some 3)"
    unfolding z7 z0 by (simp_all add: gt_nan_def abs_nan_def)
  show "get_outliers (binary64 lib) (init None) ten ''a''
     = Inr (ten\<lparr>rows := [\<lparr>label = 9, cells = [Some 7]\<rparr>]\<rparr>)"
    unfolding get_outliers_zscore [OF pos m] binary64_fields assms
    using nc flags by (simp add: rs value_at_def pos)
qed

subsection \<open>Degenerate columns\<close>

text \<open>
  A frame with no rows, for any arithmetic: the ZSCORE rule returns it, and so does the
  INTERQUARTILE rule once \<^verbatim>\<open>Series.quantile\<close> has returned the two quartiles,
  whatever they are.
\<close>

lemma interquartile_any_empty:
  assumes pos: "column_pos (columns df) c = Some i" and "rows df = []"
    and "series_quantile nu (snd (columns df ! i)) [] 0.25 = Inr Q1"
    and "series_quantile nu (snd (columns df ! i)) [] 0.75 = Inr Q3"
  shows "calculate_outliers_interquartile nu df c = Inr df"
  using assms(2-) unfolding interquartile_eq [OF pos] by simp

lemma empty_column_any_arithmetic:
  assumes "c \<in> fst ` set (columns df)"
    and "column_values df c = []"
  shows "calculate_outliers_zscore nu (df\<lparr>rows := []\<rparr>) c = Inr (df\<lparr>rows := []\<rparr>)"
    and "calculation_method self = ZSCORE \<Longrightarrow> get_outliers nu self df c = Inr (df\<lparr>rows := []\<rparr>)"
    and "column_dtype df c = Some t \<Longrightarrow>
         series_quantile nu t [] 0.25 = Inr Q1 \<Longrightarrow> series_quantile nu t [] 0.75 = Inr Q3 \<Longrightarrow>
           calculate_outliers_interquartile nu (df\<lparr>rows := []\<rparr>) c = Inr (df\<lparr>rows := []\<rparr>) \<and>
           get_outliers nu self df c = Inr (df\<lparr>rows := []\<rparr>)"
proof -
  obtain i where pos: "column_pos (columns df) c = Some i"
    using assms(1) wf_column_pos by blast
  have e: "filter (\<lambda>r. value_at df c r \<noteq> None) (rows df) = []"
    using assms(2) by (simp only: column_values_Nil_iff)
  have pos': "column_pos (columns (df\<lparr>rows := []\<rparr>)) c = Some i"
    using pos by simp
  have r: "rows (df\<lparr>rows := []\<rparr>) = []"
    by simp
  show zs: "calculate_outliers_zscore nu (df\<lparr>rows := []\<rparr>) c = Inr (df\<lparr>rows := []\<rparr>)"
    by (rule zscore_rule_empty [OF pos' r])
  show "get_outliers nu self df c = Inr (df\<lparr>rows := []\<rparr>)" if "calculation_method self = ZSCORE"
    unfolding get_outliers_non_missing [OF pos] e that
    by (simp only: outlier_calculation_methods.simps zs)
  assume t: "column_dtype df c = Some t"
    and q: "series_quantile nu t [] 0.25 = Inr Q1" "series_quantile nu t [] 0.75 = Inr Q3"
  have "snd (columns df ! i) = t"
    using t column_pos_Some [OF pos] by (simp add: column_dtype_def)
  then have q': "series_quantile nu (snd (columns (df\<lparr>rows := []\<rparr>) ! i)) [] 0.25 = Inr Q1"
    "series_quantile nu (snd (columns (df\<lparr>rows := []\<rparr>) ! i)) [] 0.75 = Inr Q3"
    using q by simp_all
  note iq = interquartile_any_empty [OF pos' r q']
  have "get_outliers nu self df c = Inr (df\<lparr>rows := []\<rparr>)"
    unfolding get_outliers_non_missing [OF pos] e
    by (cases "calculation_method self") (simp_all only: outlier_calculation_methods.simps iq zs)
  then show "calculate_outliers_interquartile nu (df\<lparr>rows := []\<rparr>) c = Inr (df\<lparr>rows := []\<rparr>) \<and>
           get_outliers nu self df c = Inr (df\<lparr>rows := []\<rparr>)"
    using iq by simp
qed

text \<open>
  Claim C8. When a column has no present value, the frame that is left after the removal
  of missing values has no rows; on it both rules return the frame with no rows, and so
  does \<^verbatim>\<open>get_outliers\<close> with either method. Nothing is raised. (The quantile of
  no values is NaN, as in \<open>exact\<close>; no arithmetic is done on a number. By
  \<open>empty_column_any_arithmetic\<close> the same holds for every arithmetic: for the ZSCORE rule
  as it is, for the INTERQUARTILE rule whenever \<^verbatim>\<open>Series.quantile\<close> returns.)
\<close>

theorem empty_column_no_outliers:
  assumes "wf_dataframe df"
    and "c \<in> fst ` set (columns df)"
    and "column_values df c = []"
  shows "get_non_missing df c = Inr (df\<lparr>rows := []\<rparr>) \<and>
         calculate_outliers_interquartile exact (df\<lparr>rows := []\<rparr>) c = Inr (df\<lparr>rows := []\<rparr>) \<and>
         calculate_outliers_zscore exact (df\<lparr>rows := []\<rparr>) c = Inr (df\<lparr>rows := []\<rparr>) \<and>
         get_outliers exact self df c = Inr (df\<lparr>rows := []\<rparr>)"
proof -
  obtain i where pos: "column_pos (columns df) c = Some i"
    using assms(2) wf_column_pos by blast
  have t: "column_dtype df c = Some (snd (columns df ! i))"
    using column_pos_Some [OF pos] by (simp add: column_dtype_def)
  have e: "filter (\<lambda>r. value_at df c r \<noteq> None) (rows df) = []"
    using assms(3) by (simp only: column_values_Nil_iff)
  have q: "series_quantile exact (snd (columns df ! i)) [] 0.25 = Inr None"
    "series_quantile exact (snd (columns df ! i)) [] 0.75 = Inr None"
    by (simp_all add: quantile_def)
  show ?thesis
    using empty_column_any_arithmetic(1) [OF assms(2,3), of exact]
      empty_column_any_arithmetic(3) [OF assms(2,3) t q, of self]
      get_non_missing_eq [OF pos] e
    by simp
qed

theorem empty_column_no_outliers_witness:
  "wf_dataframe all_missing \<and> ''a'' \<in> fst ` set (columns all_missing) \<and>
   column_values all_missing ''a'' = [] \<and>
   get_outliers exact (init (Some INTERQUARTILE)) all_missing ''a''
     = Inr \<lparr>columns = [(''a'', Float64)], rows = []\<rparr> \<and>
   get_outliers exact (init (Some ZSCORE)) all_missing ''a''
     = Inr \<lparr>columns = [(''a'', Float64)], rows = []\<rparr>"
proof -
  have h: "wf_dataframe all_missing" "''a'' \<in> fst ` set (columns all_missing)"
    "column_values all_missing ''a'' = []"
    by (simp_all add: wf_dataframe_def all_missing_def column_values_def value_at_def)
  show ?thesis
    using h empty_column_no_outliers [OF h, of "init (Some INTERQUARTILE)"]
      empty_column_no_outliers [OF h, of "init (Some ZSCORE)"]
    by (simp add: all_missing_def)
qed

text \<open>
  Claim C9. With the ZSCORE method, when the present values of a numeric column are all
  the same (and there is at least one), every z-score is NaN, no comparison with the
  threshold holds, and \<^verbatim>\<open>get_outliers\<close> returns the frame with no rows. Nothing is
  raised. This holds for every arithmetic: no score is computed.
\<close>

theorem constant_column_no_outliers:
  assumes "wf_dataframe df"
    and "column_dtype df c = Some Float64"
    and "calculation_method self = ZSCORE"
    and "column_values df c \<noteq> []"
    and "list_all (\<lambda>x. x = k) (column_values df c)"
  shows "get_outliers nu self df c = Inr (df\<lparr>rows := []\<rparr>)"
proof -
  obtain i where pos: "column_pos (columns df) c = Some i"
    using assms(2) column_dtype_pos by blast
  have "hd (column_values df c) = k"
    using assms(4,5) by (cases "column_values df c") simp_all
  then have "list_all (\<lambda>x. x = hd (column_values df c)) (column_values df c)"
    using assms(5) by simp
  then show ?thesis
    unfolding get_outliers_zscore [OF pos assms(3)] by simp
qed

theorem constant_column_no_outliers_witness:
  "wf_dataframe constant_column \<and> column_dtype constant_column ''a'' = Some Float64 \<and>
   calculation_method (init None) = ZSCORE \<and>
   column_values constant_column ''a'' = [7, 7] \<and>
   get_outliers exact (init None) constant_column ''a''
     = Inr \<lparr>columns = [(''a'', Float64)], rows = []\<rparr>"
proof -
  have h: "wf_dataframe constant_column" "column_dtype constant_column ''a'' = Some Float64"
    "calculation_method (init None) = ZSCORE"
    "column_values constant_column ''a'' \<noteq> []"
    "list_all (\<lambda>x. x = 7) (column_values constant_column ''a'')"
    by (simp_all add: wf_dataframe_def constant_column_def column_dtype_def init_def
          column_values_def value_at_def)
  have "column_values constant_column ''a'' = [7, 7]"
    by (simp add: constant_column_def column_values_def value_at_def)
  then show ?thesis
    using h constant_column_no_outliers [OF h, of exact] by (simp add: constant_column_def)
qed

subsection \<open>Columns that are absent or not numeric\<close>

text \<open>
  Claim C5, as amended. For a name that is not a column of the table,
  \<^verbatim>\<open>get_outliers\<close> fails with the KeyError that its first step, the removal of
  missing values, raises. (The program has no error type of its own, and
  \<^verbatim>\<open>get_outliers\<close> makes no test of the column's dtype.)
\<close>

theorem get_outliers_absent_column:
  assumes "wf_dataframe df"
    and "c \<notin> fst ` set (columns df)"
  shows "get_non_missing df c = Inl (KeyError c) \<and> get_outliers nu self df c = Inl (KeyError c)"
proof -
  have "column_pos (columns df) c = None"
    using assms(2) by (simp add: column_pos_None)
  then show ?thesis
    by (simp add: get_outliers_def get_non_missing_def getitem_column_None)
qed

theorem get_outliers_absent_column_witness:
  "wf_dataframe scenario \<and> ''b'' \<notin> fst ` set (columns scenario) \<and>
   get_outliers exact (init None) scenario ''b'' = Inl (KeyError ''b'')"
proof -
  have h: "wf_dataframe scenario" "''b'' \<notin> fst ` set (columns scenario)"
    by (simp_all add: wf_dataframe_def scenario_def)
  show ?thesis
    using h get_outliers_absent_column [OF h, of exact "init None"] by simp
qed

text \<open>
  Claim C5 as stated fails for a column that is not numeric: on a column of durations
  the INTERQUARTILE method returns the outliers and raises nothing. The quartiles are
  \<open>2\<close> and \<open>4\<close>, the fences \<open>-1\<close> and \<open>7\<close>: rounding does not change the outcome.
\<close>

lemma quantile_durations:
  "column_values durations ''d'' = [1, 2, 3, 4, 100]"
  "quantile_linear [1, 2, 3, 4, 100] (1/4) = 2"
  "quantile_linear [1, 2, 3, 4, 100] (3/4) = 4"
  by (simp_all add: column_values_def durations_def value_at_def quantile_linear_def Let_def)

theorem get_outliers_not_numeric_counterexample:
  "column_dtype durations ''d'' = Some Timedelta64 \<and> \<not> is_numeric_dtype Timedelta64 \<and>
   get_outliers exact (init (Some INTERQUARTILE)) durations ''d''
     = Inr (durations\<lparr>rows := [\<lparr>label = 4, cells = [Some 100]\<rparr>]\<rparr>)"
proof -
  have pos: "column_pos (columns durations) ''d'' = Some 0"
    and m: "calculation_method (init (Some INTERQUARTILE)) = INTERQUARTILE"
    by (simp_all add: durations_def init_def)
  have rs: "rows durations = [\<lparr>label = 0, cells = [Some 1]\<rparr>, \<lparr>label = 1, cells = [Some 2]\<rparr>,
             \<lparr>label = 2, cells = [Some 3]\<rparr>, \<lparr>label = 3, cells = [Some 4]\<rparr>,
             \<lparr>label = 4, cells = [Some 100]\<rparr>]"
    by (simp add: durations_def)
  have "column_dtype durations ''d'' = Some Timedelta64"
    by (simp add: column_dtype_def durations_def)
  then show ?thesis
    unfolding get_outliers_interquartile_eq [OF pos m]
    by (simp add: quantile_durations rs value_at_def pos)
qed

subsection \<open>The partition into missing, outlier and other rows\<close>

lemma filter_dataframe_out_eq:
  "filter_dataframe_out df flt = df\<lparr>rows := filter (\<lambda>r. label r \<notin> set (index flt)) (rows df)\<rparr>"
proof -
  have "map (\<lambda>l. \<not> l \<in> set (index flt)) (index df)
      = map (\<lambda>r. label r \<notin> set (index flt)) (rows df)"
    by (simp add: index_def)
  then show ?thesis
    by (simp only: filter_dataframe_out_def getitem_mask_def mask_rows_map)
qed

lemma get_non_outliers_eq:
  assumes pos: "column_pos (columns df) c = Some i"
    and out: "get_outliers nu self df c = Inr outl"
  shows "get_non_outliers nu self df c =
     Inr (df\<lparr>rows := filter (\<lambda>r. value_at df c r \<noteq> None \<and> label r \<notin> set (index outl))
                          (rows df)\<rparr>)"
proof -
  have "filter (\<lambda>r. label r \<notin> set (index outl)) (filter (\<lambda>r. value_at df c r \<noteq> None) (rows df))
      = filter (\<lambda>r. value_at df c r \<noteq> None \<and> label r \<notin> set (index outl)) (rows df)"
    by (simp only: filter_filter conj_commute)
  then show ?thesis
    unfolding get_non_outliers_def get_non_missing_eq [OF pos] out and_then_Inr
      filter_dataframe_out_eq rows_rows_update rows_update_twice
    by (simp only:)
qed

lemma length_three_filters:
  assumes "\<And>r. r \<in> set rs \<Longrightarrow> (A r \<and> \<not> B r \<and> \<not> C r) \<or> (\<not> A r \<and> B r \<and> \<not> C r) \<or> (\<not> A r \<and> \<not> B r \<and> C r)"
  shows "length (filter A rs) + length (filter B rs) + length (filter C rs) = length rs"
  using assms by (induction rs) auto

lemma label_in_filter_iff:
  assumes "distinct (map label rs)" and "r \<in> set rs"
  shows "label r \<in> label ` set (filter P rs) \<longleftrightarrow> P r"
proof -
  have "inj_on label (set rs)"
    using assms(1) by (simp add: distinct_map)
  then show ?thesis
    using assms(2) by (auto simp: inj_on_def)
qed


text \<open>
  The partition for any arithmetic: whenever \<open>get_outliers\<close> returns for a column of a
  table with pairwise distinct index labels, \<open>get_missing\<close> and \<open>get_non_outliers\<close>
  return too and the three frames partition the table.
\<close>

lemma partition_any_arithmetic:
  assumes "distinct (index df)"
    and pos: "column_pos (columns df) c = Some i"
    and out: "get_outliers nu self df c = Inr outl"
  shows "\<exists>missing rest.
     get_missing df c = Inr missing \<and>
     get_non_outliers nu self df c = Inr rest \<and>
     set (index missing) \<inter> set (index outl) = {} \<and>
     set (index missing) \<inter> set (index rest) = {} \<and>
     set (index outl) \<inter> set (index rest) = {} \<and>
     set (index missing) \<union> set (index outl) \<union> set (index rest) = set (index df) \<and>
     set (rows missing) \<union> set (rows outl) \<union> set (rows rest) = set (rows df) \<and>
     len_index missing + len_index outl + len_index rest = len_index df"
proof -
  obtain P where outl: "outl = df\<lparr>rows := filter P (rows df)\<rparr>"
    and P: "\<And>r. P r \<Longrightarrow> value_at df c r \<noteq> None"
    using get_outliers_filter [OF pos out] by blast
  let ?A = "\<lambda>r. value_at df c r = None"
  let ?C = "\<lambda>r. value_at df c r \<noteq> None \<and> label r \<notin> set (index (df\<lparr>rows := filter P (rows df)\<rparr>))"
  have d: "distinct (map label (rows df))"
    using assms(1) by (simp add: index_def)
  have inj: "inj_on label (set (rows df))"
    using d by (simp add: distinct_map)
  have C: "?C r \<longleftrightarrow> value_at df c r \<noteq> None \<and> \<not> P r" if "r \<in> set (rows df)" for r
    using label_in_filter_iff [OF d that, of P] by (simp add: index_def)
  have cases3: "(?A r \<and> \<not> P r \<and> \<not> ?C r) \<or> (\<not> ?A r \<and> P r \<and> \<not> ?C r) \<or> (\<not> ?A r \<and> \<not> P r \<and> ?C r)"
    if "r \<in> set (rows df)" for r
    using C [OF that] P [of r] by blast
  have len: "length (filter ?A (rows df)) + length (filter P (rows df)) + length (filter ?C (rows df))
      = length (rows df)"
    using cases3 by (rule length_three_filters)
  have rows_un: "set (filter ?A (rows df)) \<union> set (filter P (rows df)) \<union> set (filter ?C (rows df))
      = set (rows df)"
    using cases3 by (simp only: set_filter) blast
  have idx: "set (index (df\<lparr>rows := filter Q (rows df)\<rparr>)) = label ` {r \<in> set (rows df). Q r}" for Q
    by (simp add: index_def)
  have disj: "label ` {r \<in> set (rows df). Q r} \<inter> label ` {r \<in> set (rows df). Q' r} = {}"
    if "\<And>r. r \<in> set (rows df) \<Longrightarrow> \<not> (Q r \<and> Q' r)" for Q Q'
    using that inj by (auto simp: inj_on_def)
  have un: "label ` {r \<in> set (rows df). ?A r} \<union> label ` {r \<in> set (rows df). P r}
        \<union> label ` {r \<in> set (rows df). ?C r} = label ` set (rows df)"
    using cases3 by blast
  show ?thesis
    unfolding get_missing_eq [OF pos] get_non_outliers_eq [OF pos out] unfolding outl
    apply (intro exI conjI)
           apply (rule refl)
          apply (rule refl)
    subgoal unfolding idx using cases3 by (intro disj) blast
    subgoal unfolding idx using cases3 by (intro disj) blast
    subgoal unfolding idx using cases3 by (intro disj) blast
    subgoal unfolding idx using un by (simp add: index_def)
    subgoal using rows_un by simp
    subgoal using len by (simp add: len_index_def)
    done
qed

text \<open>
  Claim C1, as amended. For every table whose index labels are pairwise distinct and every
  numeric column of it, \<^verbatim>\<open>get_missing\<close>, \<^verbatim>\<open>get_outliers\<close> and
  \<^verbatim>\<open>get_non_outliers\<close> return three frames whose index labels are pairwise
  disjoint, whose labels together are the labels of the table, whose rows together are the
  rows of the table, and whose row counts add up to the row count of the table. (Stated
  with the statistics of \<open>exact\<close>, which raise nothing; by \<open>partition_any_arithmetic\<close>
  the three frames are such a partition for every arithmetic in which
  \<^verbatim>\<open>get_outliers\<close> returns.)
\<close>

theorem partition_distinct_index:
  assumes "wf_dataframe df"
    and "distinct (index df)"
    and "column_dtype df c = Some Float64"
  shows "\<exists>missing outl rest.
     get_missing df c = Inr missing \<and>
     get_outliers exact self df c = Inr outl \<and>
     get_non_outliers exact self df c = Inr rest \<and>
     set (index missing) \<inter> set (index outl) = {} \<and>
     set (index missing) \<inter> set (index rest) = {} \<and>
     set (index outl) \<inter> set (index rest) = {} \<and>
     set (index missing) \<union> set (index outl) \<union> set (index rest) = set (index df) \<and>
     set (rows missing) \<union> set (rows outl) \<union> set (rows rest) = set (rows df) \<and>
     len_index missing + len_index outl + len_index rest = len_index df"
proof -
  obtain i where pos: "column_pos (columns df) c = Some i"
    using assms(3) column_dtype_pos by blast
  obtain outl where outl: "get_outliers exact self df c = Inr outl"
    using get_outliers_exact_returns [OF pos] by blast
  show ?thesis
    using partition_any_arithmetic [OF assms(2) pos outl] outl by blast
qed

lemma classes_scenario:
  "get_missing scenario ''a'' = Inr (scenario\<lparr>rows := [\<lparr>label = 4, cells = [None]\<rparr>]\<rparr>)"
  "get_non_outliers exact (init (Some INTERQUARTILE)) scenario ''a''
     = Inr (scenario\<lparr>rows := [\<lparr>label = 0, cells = [Some 10]\<rparr>, \<lparr>label = 1, cells = [Some 12]\<rparr>,
             \<lparr>label = 2, cells = [Some 11]\<rparr>, \<lparr>label = 3, cells = [Some 13]\<rparr>]\<rparr>)"
proof -
  have pos: "column_pos (columns scenario) ''a'' = Some 0"
    by (simp add: scenario_def)
  have rs: "rows scenario = [\<lparr>label = 0, cells = [Some 10]\<rparr>, \<lparr>label = 1, cells = [Some 12]\<rparr>,
             \<lparr>label = 2, cells = [Some 11]\<rparr>, \<lparr>label = 3, cells = [Some 13]\<rparr>,
             \<lparr>label = 4, cells = [None]\<rparr>, \<lparr>label = 5, cells = [Some 200]\<rparr>]"
    by (simp add: scenario_def)
  show "get_missing scenario ''a'' = Inr (scenario\<lparr>rows := [\<lparr>label = 4, cells = [None]\<rparr>]\<rparr>)"
    unfolding get_missing_eq [OF pos] by (simp add: rs value_at_def pos)
  show "get_non_outliers exact (init (Some INTERQUARTILE)) scenario ''a''
     = Inr (scenario\<lparr>rows := [\<lparr>label = 0, cells = [Some 10]\<rparr>, \<lparr>label = 1, cells = [Some 12]\<rparr>,
             \<lparr>label = 2, cells = [Some 11]\<rparr>, \<lparr>label = 3, cells = [Some 13]\<rparr>]\<rparr>)"
    unfolding get_non_outliers_eq [OF pos get_outliers_scenario]
    by (simp add: rs value_at_def pos index_def)
qed

text \<open>
  On the column \<^verbatim>\<open>[10, 12, 11, 13, None, 200]\<close> with the index \<open>0, \<dots>, 5\<close>: one
  missing row, one outlier and four other rows.
\<close>

theorem partition_distinct_index_witness:
  "wf_dataframe scenario \<and> distinct (index scenario) \<and>
   column_dtype scenario ''a'' = Some Float64 \<and>
   (\<exists>missing outl rest.
     get_missing scenario ''a'' = Inr missing \<and>
     get_outliers exact (init (Some INTERQUARTILE)) scenario ''a'' = Inr outl \<and>
     get_non_outliers exact (init (Some INTERQUARTILE)) scenario ''a'' = Inr rest \<and>
     index missing = [4] \<and> index outl = [5] \<and> index rest = [0, 1, 2, 3] \<and>
     set (index missing) \<inter> set (index outl) = {} \<and>
     set (index missing) \<inter> set (index rest) = {} \<and>
     set (index outl) \<inter> set (index rest) = {} \<and>
     set (index missing) \<union> set (index outl) \<union> set (index rest) = set (index scenario) \<and>
     set (rows missing) \<union> set (rows outl) \<union> set (rows rest) = set (rows scenario) \<and>
     len_index missing + len_index outl + len_index rest = len_index scenario)"
proof -
  have h: "wf_dataframe scenario" "distinct (index scenario)"
    "column_dtype scenario ''a'' = Some Float64"
    by (simp_all add: wf_dataframe_def scenario_def column_dtype_def index_def)
  show ?thesis
    using h partition_distinct_index [OF h, of "init (Some INTERQUARTILE)"]
    by (simp add: classes_scenario get_outliers_scenario index_def)
qed

lemma quantile_concatenated:
  "column_values concatenated ''a'' = [10, 12, 11, 13, 200]"
  by (simp add: column_values_def concatenated_def value_at_def)

lemma classes_concatenated:
  "get_missing concatenated ''a'' = Inr (concatenated\<lparr>rows := []\<rparr>)"
  "get_outliers exact (init (Some INTERQUARTILE)) concatenated ''a''
     = Inr (concatenated\<lparr>rows := [\<lparr>label = 0, cells = [Some 200]\<rparr>]\<rparr>)"
  "get_non_outliers exact (init (Some INTERQUARTILE)) concatenated ''a''
     = Inr (concatenated\<lparr>rows := [\<lparr>label = 1, cells = [Some 12]\<rparr>,
             \<lparr>label = 2, cells = [Some 11]\<rparr>, \<lparr>label = 3, cells = [Some 13]\<rparr>]\<rparr>)"
proof -
  have pos: "column_pos (columns concatenated) ''a'' = Some 0"
    and m: "calculation_method (init (Some INTERQUARTILE)) = INTERQUARTILE"
    by (simp_all add: concatenated_def init_def)
  have rs: "rows concatenated = [\<lparr>label = 0, cells = [Some 10]\<rparr>, \<lparr>label = 1, cells = [Some 12]\<rparr>,
             \<lparr>label = 2, cells = [Some 11]\<rparr>, \<lparr>label = 3, cells = [Some 13]\<rparr>,
             \<lparr>label = 0, cells = [Some 200]\<rparr>]"
    by (simp add: concatenated_def)
  show "get_missing concatenated ''a'' = Inr (concatenated\<lparr>rows := []\<rparr>)"
    unfolding get_missing_eq [OF pos] by (simp add: rs value_at_def pos)
  show o: "get_outliers exact (init (Some INTERQUARTILE)) concatenated ''a''
     = Inr (concatenated\<lparr>rows := [\<lparr>label = 0, cells = [Some 200]\<rparr>]\<rparr>)"
    unfolding get_outliers_interquartile_eq [OF pos m]
    by (simp add: quantile_concatenated quantile_scenario rs value_at_def pos)
  show "get_non_outliers exact (init (Some INTERQUARTILE)) concatenated ''a''
     = Inr (concatenated\<lparr>rows := [\<lparr>label = 1, cells = [Some 12]\<rparr>,
             \<lparr>label = 2, cells = [Some 11]\<rparr>, \<lparr>label = 3, cells = [Some 13]\<rparr>]\<rparr>)"
    unfolding get_non_outliers_eq [OF pos o]
    by (simp add: rs value_at_def pos index_def)
qed

text \<open>
  Claim C1 as stated, for every table, fails on a table in which an index label repeats:
  the outlier \<open>200\<close> carries the label \<open>0\<close>, so the row with \<open>10\<close>, which carries it
  too, is left out of the non-outliers. That row is in none of the three frames, and the
  three counts \<open>0\<close>, \<open>1\<close> and \<open>3\<close> do not add up to the five rows of the table.
\<close>

theorem partition_repeated_label_counterexample:
  "wf_dataframe concatenated \<and> column_dtype concatenated ''a'' = Some Float64 \<and>
   get_missing concatenated ''a'' = Inr (concatenated\<lparr>rows := []\<rparr>) \<and>
   get_outliers exact (init (Some INTERQUARTILE)) concatenated ''a''
     = Inr (concatenated\<lparr>rows := [\<lparr>label = 0, cells = [Some 200]\<rparr>]\<rparr>) \<and>
   get_non_outliers exact (init (Some INTERQUARTILE)) concatenated ''a''
     = Inr (concatenated\<lparr>rows := [\<lparr>label = 1, cells = [Some 12]\<rparr>,
             \<lparr>label = 2, cells = [Some 11]\<rparr>, \<lparr>label = 3, cells = [Some 13]\<rparr>]\<rparr>) \<and>
   \<lparr>label = 0, cells = [Some 10]\<rparr> \<in> set (rows concatenated) \<and>
   len_index (concatenated\<lparr>rows := []\<rparr>)
     + len_index (concatenated\<lparr>rows := [\<lparr>label = 0, cells = [Some 200]\<rparr>]\<rparr>)
     + len_index (concatenated\<lparr>rows := [\<lparr>label = 1, cells = [Some 12]\<rparr>,
             \<lparr>label = 2, cells = [Some 11]\<rparr>, \<lparr>label = 3, cells = [Some 13]\<rparr>]\<rparr>) = 4 \<and>
   len_index concatenated = 5"
proof -
  have "wf_dataframe concatenated" "column_dtype concatenated ''a'' = Some Float64"
    "\<lparr>label = 0, cells = [Some 10]\<rparr> \<in> set (rows concatenated)"
    "len_index concatenated = 5"
    by (simp_all add: wf_dataframe_def concatenated_def column_dtype_def len_index_def)
  then show ?thesis
    by (simp add: classes_concatenated len_index_def)
qed

subsection \<open>The report, for any arithmetic\<close>

lemma numeric_Float64: "is_numeric_dtype t \<Longrightarrow> t = Float64"
  by (cases t) simp_all

lemma selected_pos:
  assumes "selected df cols c"
  shows "\<exists>i. column_pos (columns df) c = Some i \<and> snd (columns df ! i) = Float64"
proof -
  obtain t where "column_dtype df c = Some t" "is_numeric_dtype t"
    using assms by (auto simp: selected_def split: option.splits)
  then show ?thesis
    using column_dtype_pos numeric_Float64 by blast
qed

lemma selected_column: "selected df cols c \<Longrightarrow> c \<in> fst ` set (columns df)"
  by (auto simp: selected_def column_dtype_def split: option.splits dest: map_of_SomeD
        intro: rev_image_eqI)

lemma set_filter_selected:
  "set (filter (selected df cols) (map fst (columns df))) = {c. selected df cols c}"
  using selected_column [of df cols] by auto

lemma percentage_zero: "percentage nu part 0 digits = Inl ZeroDivisionError"
  by (simp add: percentage_def)

lemma percentage_nonzero:
  "whole \<noteq> 0 \<Longrightarrow>
   percentage nu part whole digits =
     Inr (builtin_round nu (float_truediv nu (float_mul nu 100 (real part)) (real whole)) digits)"
  by (simp add: percentage_def)

lemma get_outliers_Inl:
  assumes "get_outliers nu self df c = Inl e"
  shows "column_information nu self df od c = Inl e"
proof (cases "get_missing df c")
  case (Inl e')
  then have "getitem_column df c = Inl e'"
    by (auto simp: get_missing_def and_then_def split: sum.splits)
  then have "get_outliers nu self df c = Inl e'"
    by (simp add: get_outliers_def get_non_missing_def)
  then show ?thesis
    using assms Inl by (simp add: column_information_def)
next
  case (Inr missing)
  then obtain x where "getitem_column df c = Inr x"
    by (auto simp: get_missing_def and_then_def split: sum.splits)
  then obtain nm where "get_non_missing df c = Inr nm"
    by (cases x) (simp add: get_non_missing_def)
  then show ?thesis
    using assms Inr by (simp add: column_information_def)
qed

lemma column_information_eq:
  assumes "get_missing df c = Inr missing"
    and "get_non_missing df c = Inr present_rows"
    and "get_outliers nu self df c = Inr outl"
    and "get_non_outliers nu self df c = Inr rest"
  shows "column_information nu self df output_dataframes c =
     (if rows df = [] then Inl ZeroDivisionError
      else Inr
        (if len_index missing + len_index outl + len_index rest \<noteq> len_index df
         then [Warning c] else [],
         \<lparr>missing_values_count = len_index missing,
          missing_values_percentage =
            builtin_round nu (float_truediv nu
              (float_mul nu 100 (real (len_index missing))) (real (len_index df))) 4,
          outlier_values_count = len_index outl,
          outlier_values_percentage =
            builtin_round nu (float_truediv nu
              (float_mul nu 100 (real (len_index outl))) (real (len_index df))) 4,
          non_outlier_values_count = len_index rest,
          non_outlier_values_percentage =
            builtin_round nu (float_truediv nu
              (float_mul nu 100 (real (len_index rest))) (real (len_index df))) 4,
          missing_values_df = (if output_dataframes then Some missing else None),
          outlier_values_df = (if output_dataframes then Some outl else None),
          non_outlier_values_df = (if output_dataframes then Some rest else None)\<rparr>))"
proof (cases "rows df = []")
  case True
  then show ?thesis
    unfolding column_information_def assms and_then_Inr Let_def
    by (simp add: len_index_def percentage_zero)
next
  case False
  then have "len_index df \<noteq> 0"
    by (simp add: len_index_def)
  then show ?thesis
    unfolding column_information_def assms and_then_Inr Let_def
    using False by (simp add: percentage_nonzero)
qed

text \<open>
  For a column of the table the body of the loop produces an entry exactly when
  \<open>get_outliers\<close> returns and the table has a row; the only output is the warning.
\<close>

lemma column_information_Inr_iff:
  assumes pos: "column_pos (columns df) c = Some i"
  shows "(\<exists>x. column_information nu self df od c = Inr x) \<longleftrightarrow>
         rows df \<noteq> [] \<and> (\<exists>outl. get_outliers nu self df c = Inr outl)"
proof (cases "get_outliers nu self df c")
  case (Inl e)
  then show ?thesis
    using get_outliers_Inl [OF Inl] by simp
next
  case (Inr outl)
  note ci = column_information_eq [OF get_missing_eq [OF pos] get_non_missing_eq [OF pos] Inr
      get_non_outliers_eq [OF pos Inr]]
  show ?thesis
    using Inr by (simp only: ci) simp
qed

lemma column_information_no_rows:
  assumes pos: "column_pos (columns df) c = Some i"
    and "rows df = []"
  shows "\<exists>e. column_information nu self df od c = Inl e"
    and "get_outliers nu self df c = Inr outl \<Longrightarrow>
           column_information nu self df od c = Inl ZeroDivisionError"
proof -
  show "\<exists>e. column_information nu self df od c = Inl e"
    using column_information_Inr_iff [OF pos, of nu self od] assms(2)
    by (cases "column_information nu self df od c") auto
  assume o: "get_outliers nu self df c = Inr outl"
  show "column_information nu self df od c = Inl ZeroDivisionError"
    using assms(2)
    by (simp only: column_information_eq [OF get_missing_eq [OF pos] get_non_missing_eq [OF pos] o
          get_non_outliers_eq [OF pos o]]) simp
qed

lemma column_information_warning:
  assumes pos: "column_pos (columns df) c = Some i"
    and "column_information nu self df od c = Inr (w, rep)"
  shows "set w \<subseteq> {Warning c}"
proof -
  obtain outl where o: "get_outliers nu self df c = Inr outl"
    using column_information_Inr_iff [OF pos, of nu self od] assms(2) by auto
  show ?thesis
    using assms(2)
    by (simp only: column_information_eq [OF get_missing_eq [OF pos] get_non_missing_eq [OF pos] o
          get_non_outliers_eq [OF pos o]]) (auto split: if_splits)
qed


lemma foldl_update_keys:
  "fst ` set (foldl (\<lambda>r c. AList.update c (f c) r) res cs) = fst ` set res \<union> set cs"
  by (induction cs arbitrary: res) (auto simp: dom_update)

lemma foldl_update_map_of:
  "map_of (foldl (\<lambda>r c. AList.update c (f c) r) res cs) k =
     (if k \<in> set cs then Some (f k) else map_of res k)"
  by (induction cs arbitrary: res) (auto simp: update_conv')

lemma columns_loop_step:
  assumes "column \<in> fst ` set (columns df)"
  shows "columns_loop nu self df od cols (column # todo) (out, res) =
     (if selected df cols column then
        and_then (column_information nu self df od column) (\<lambda>(w, rep).
          columns_loop nu self df od cols todo (out @ w, AList.update column rep res))
      else columns_loop nu self df od cols todo (out, res))"
proof -
  obtain i where pos: "column_pos (columns df) column = Some i"
    using assms wf_column_pos by blast
  have "column_dtype df column = Some (snd (columns df ! i))"
    using column_pos_Some [OF pos] by (simp add: column_dtype_def)
  then have "selected df cols column \<longleftrightarrow>
      is_numeric_dtype (snd (columns df ! i)) \<and> (cols = [] \<or> column \<in> set cols)"
    by (simp add: selected_def)
  then show ?thesis
    by (simp add: getitem_column_Some [OF pos])
qed

text \<open>
  The loop ends in the error of the first column that passes the test and whose body
  raises; when there is none it returns the warnings and the entries of the columns that
  pass the test, in the order of the table.
\<close>

lemma columns_loop_eq:
  assumes "set todo \<subseteq> fst ` set (columns df)"
  shows "columns_loop nu self df od cols todo (out, res) =
    (case find (\<lambda>c. isl (column_information nu self df od c)) (filter (selected df cols) todo) of
       Some c \<Rightarrow> Inl (projl (column_information nu self df od c))
     | None \<Rightarrow> Inr
         (out @ concat (map (\<lambda>c. fst (projr (column_information nu self df od c)))
                         (filter (selected df cols) todo)),
          foldl (\<lambda>r c. AList.update c (snd (projr (column_information nu self df od c))) r) res
            (filter (selected df cols) todo)))"
  using assms
proof (induction todo arbitrary: out res)
  case Nil
  show ?case by simp
next
  case (Cons column todo)
  have col: "column \<in> fst ` set (columns df)" and sub: "set todo \<subseteq> fst ` set (columns df)"
    using Cons.prems by simp_all
  note IH = Cons.IH [OF sub]
  show ?case
  proof (cases "selected df cols column")
    case False
    then show ?thesis
      by (simp only: columns_loop_step [OF col] IH) (simp cong: option.case_cong)
  next
    case True
    show ?thesis
    proof (cases "column_information nu self df od column")
      case (Inl e)
      then show ?thesis
        using True by (simp only: columns_loop_step [OF col]) simp
    next
      case (Inr x)
      obtain w rep where x: "x = (w, rep)"
        by (cases x)
      have pr: "fst (projr (column_information nu self df od column)) = w"
        "snd (projr (column_information nu self df od column)) = rep"
        "\<not> isl (column_information nu self df od column)"
        by (simp_all add: Inr x)
      show ?thesis
        using True
        by (simp only: columns_loop_step [OF col] Inr x and_then_Inr prod.case IH)
           (simp add: pr Inr x cong: option.case_cong)
    qed
  qed
qed

lemma get_outliers_information_eq:
  "get_outliers_information nu self df od cols lg =
    (case find (\<lambda>c. isl (column_information nu self df od c))
            (filter (selected df cols) (map fst (columns df))) of
       Some c \<Rightarrow> Inl (projl (column_information nu self df od c))
     | None \<Rightarrow> Inr
       ((if lg then
           concat (map (\<lambda>c. fst (projr (column_information nu self df od c)))
                       (filter (selected df cols) (map fst (columns df))))
           @ log_column_information
               (foldl (\<lambda>r c. AList.update c (snd (projr (column_information nu self df od c))) r)
                  [] (filter (selected df cols) (map fst (columns df))))
         else
           concat (map (\<lambda>c. fst (projr (column_information nu self df od c)))
                       (filter (selected df cols) (map fst (columns df))))),
        foldl (\<lambda>r c. AList.update c (snd (projr (column_information nu self df od c))) r) []
          (filter (selected df cols) (map fst (columns df)))))"
proof -
  have "set (map fst (columns df)) \<subseteq> fst ` set (columns df)"
    by simp
  note loop = columns_loop_eq [OF this, of nu self od cols "[]" "[]"]
  show ?thesis
    unfolding get_outliers_information_def loop by (simp split: option.splits)
qed

lemma find_isl_None:
  "find (\<lambda>c. isl (f c)) cs = None \<longleftrightarrow> (\<forall>c\<in>set cs. \<exists>x. f c = Inr x)"
proof -
  have "\<not> isl (f c) \<longleftrightarrow> (\<exists>x. f c = Inr x)" for c
    by (cases "f c") auto
  then show ?thesis
    by (auto simp: find_None_iff)
qed

text \<open>
  The call returns exactly when the body of the loop produces an entry for every column
  that passes the test.
\<close>

lemma get_outliers_information_returns_iff:
  "(\<exists>out res. get_outliers_information nu self df od cols lg = Inr (out, res)) \<longleftrightarrow>
   (\<forall>c. selected df cols c \<longrightarrow> (\<exists>x. column_information nu self df od c = Inr x))"
proof -
  have "(\<exists>out res. get_outliers_information nu self df od cols lg = Inr (out, res)) \<longleftrightarrow>
      find (\<lambda>c. isl (column_information nu self df od c))
        (filter (selected df cols) (map fst (columns df))) = None"
    by (simp add: get_outliers_information_eq split: option.splits)
  then show ?thesis
    unfolding find_isl_None set_filter_selected by simp
qed

lemma printed_column_log:
  "printed_column ` set (log_column_information res) = fst ` set res"
  by (force simp: log_column_information_def image_iff split: prod.splits)

lemma get_outliers_information_Inr:
  assumes "get_outliers_information nu self df od cols lg = Inr (out, res)"
  shows "fst ` set res = {c. selected df cols c}"
    and "printed_column ` set out \<subseteq> {c. selected df cols c}"
    and "selected df cols c \<Longrightarrow>
           map_of res c = Some (snd (projr (column_information nu self df od c))) \<and>
           set (fst (projr (column_information nu self df od c))) \<subseteq> set out"
proof -
  let ?sel = "filter (selected df cols) (map fst (columns df))"
  let ?W = "concat (map (\<lambda>c. fst (projr (column_information nu self df od c))) ?sel)"
  let ?R = "foldl (\<lambda>r c. AList.update c (snd (projr (column_information nu self df od c))) r) [] ?sel"
  have ok: "find (\<lambda>c. isl (column_information nu self df od c)) ?sel = None"
    and out: "out = (if lg then ?W @ log_column_information ?R else ?W)"
    and res: "res = ?R"
    using assms by (auto simp: get_outliers_information_eq split: if_splits option.splits)
  show keys: "fst ` set res = {c. selected df cols c}"
    unfolding res foldl_update_keys set_filter_selected by simp
  have "printed_column ` set (fst (projr (column_information nu self df od c))) \<subseteq> {c}"
    if sel: "selected df cols c" for c
  proof -
    obtain i where pos: "column_pos (columns df) c = Some i"
      using selected_pos [OF sel] by blast
    obtain w rep where ci: "column_information nu self df od c = Inr (w, rep)"
      using ok sel unfolding find_isl_None set_filter_selected by auto
    show ?thesis
      using column_information_warning [OF pos ci] by (auto simp: ci)
  qed
  then have W: "printed_column ` set ?W \<subseteq> {c. selected df cols c}"
    using set_filter_selected [of df cols] by fastforce
  show "printed_column ` set out \<subseteq> {c. selected df cols c}"
    using W keys printed_column_log [of ?R] unfolding out res
    by (simp add: image_Un)
  show "map_of res c = Some (snd (projr (column_information nu self df od c))) \<and>
        set (fst (projr (column_information nu self df od c))) \<subseteq> set out"
    if "selected df cols c"
  proof -
    have "c \<in> set ?sel"
      using that set_filter_selected [of df cols] by blast
    then show ?thesis
      unfolding res out foldl_update_map_of by auto
  qed
qed

lemma get_outliers_information_no_selected:
  assumes "\<forall>c. \<not> selected df cols c"
  shows "get_outliers_information nu self df od cols lg = Inr ([], [])"
proof -
  have "filter (selected df cols) (map fst (columns df)) = []"
    using assms by (simp add: filter_empty_conv)
  then show ?thesis
    by (simp add: get_outliers_information_eq log_column_information_def)
qed

lemma find_SomeD: "find P xs = Some x \<Longrightarrow> x \<in> set xs \<and> P x"
  by (induction xs) (auto split: if_splits)

lemma get_outliers_information_no_rows:
  assumes "rows df = []" and "selected df cols c"
  shows "\<exists>e. get_outliers_information nu self df od cols lg = Inl e"
    and "(\<forall>c'. selected df cols c' \<longrightarrow> (\<exists>outl. get_outliers nu self df c' = Inr outl)) \<Longrightarrow>
           get_outliers_information nu self df od cols lg = Inl ZeroDivisionError"
proof -
  let ?sel = "filter (selected df cols) (map fst (columns df))"
  let ?f = "find (\<lambda>c. isl (column_information nu self df od c)) ?sel"
  have fails: "\<exists>e. column_information nu self df od c' = Inl e" if s: "selected df cols c'" for c'
  proof -
    obtain i where "column_pos (columns df) c' = Some i"
      using selected_pos [OF s] by blast
    then show ?thesis
      using column_information_no_rows(1) assms(1) by blast
  qed
  have "?f \<noteq> None"
    using fails [OF assms(2)] assms(2) unfolding find_isl_None set_filter_selected by auto
  then obtain c0 where f: "?f = Some c0"
    by auto
  then have s0: "selected df cols c0"
    using find_SomeD [OF f] set_filter_selected [of df cols] by blast
  have goi: "get_outliers_information nu self df od cols lg
      = Inl (projl (column_information nu self df od c0))"
    by (simp add: get_outliers_information_eq f)
  then show "\<exists>e. get_outliers_information nu self df od cols lg = Inl e"
    by blast
  assume all: "\<forall>c'. selected df cols c' \<longrightarrow> (\<exists>outl. get_outliers nu self df c' = Inr outl)"
  obtain i where pos: "column_pos (columns df) c0 = Some i"
    using selected_pos [OF s0] by blast
  obtain outl where "get_outliers nu self df c0 = Inr outl"
    using all s0 by blast
  then have "column_information nu self df od c0 = Inl ZeroDivisionError"
    using column_information_no_rows(2) [OF pos assms(1)] by blast
  then show "get_outliers_information nu self df od cols lg = Inl ZeroDivisionError"
    using goi by simp
qed

text \<open>
  On a table with a row, an error of the call is the error that \<open>get_outliers\<close> raises
  for a column that passes the test.
\<close>

lemma get_outliers_information_error:
  assumes "rows df \<noteq> []"
    and "get_outliers_information nu self df od cols lg = Inl e"
  shows "\<exists>c. selected df cols c \<and> get_outliers nu self df c = Inl e"
proof -
  let ?sel = "filter (selected df cols) (map fst (columns df))"
  obtain c0 where f: "find (\<lambda>c. isl (column_information nu self df od c)) ?sel = Some c0"
    and e: "e = projl (column_information nu self df od c0)"
    using assms(2) by (auto simp: get_outliers_information_eq split: option.splits)
  have s0: "selected df cols c0" and l: "isl (column_information nu self df od c0)"
    using find_SomeD [OF f] set_filter_selected [of df cols] by auto
  obtain i where pos: "column_pos (columns df) c0 = Some i"
    using selected_pos [OF s0] by blast
  show ?thesis
  proof (cases "get_outliers nu self df c0")
    case (Inl e')
    then show ?thesis
      using get_outliers_Inl [OF Inl, of od] e s0 by auto
  next
    case (Inr outl)
    then have "\<exists>x. column_information nu self df od c0 = Inr x"
      using column_information_Inr_iff [OF pos, of nu self od] assms(1) by simp
    then show ?thesis
      using l by auto
  qed
qed

subsection \<open>The report in exact arithmetic\<close>

lemma get_outliers_exact_selected:
  assumes "selected df cols c"
  shows "\<exists>outl. get_outliers exact self df c = Inr outl"
proof -
  obtain i where "column_pos (columns df) c = Some i"
    using selected_pos [OF assms] by blast
  then show ?thesis
    using get_outliers_exact_returns by blast
qed

lemma get_outliers_information_exact_no_rows:
  assumes "rows df = []"
  shows "get_outliers_information exact self df od cols lg =
     (if \<exists>c. selected df cols c then Inl ZeroDivisionError else Inr ([], []))"
proof (cases "\<exists>c. selected df cols c")
  case True
  then obtain c where "selected df cols c" by blast
  then show ?thesis
    using get_outliers_information_no_rows(2) [OF assms, of cols c exact self]
      get_outliers_exact_selected True by auto
next
  case False
  then show ?thesis
    using get_outliers_information_no_selected [of df cols] by simp
qed

subsection \<open>Percentages and tables with no rows\<close>

text \<open>
  Claim C4, as amended. \<^verbatim>\<open>percentage\<close> with the default four digits returns
  \<^verbatim>\<open>round\<close>, to four digits, of the floating-point quotient of \<open>100 * part\<close> by
  \<open>whole\<close> when \<open>whole\<close> is not zero, and raises ZeroDivisionError when it is zero (the
  counts are below \<open>2\<^sup>5\<^sup>3\<close>). So on a table with no rows and a column that passes the
  test \<^verbatim>\<open>get_outliers_information\<close> returns no report: it ends in an error, which is
  the ZeroDivisionError of the percentages whenever \<^verbatim>\<open>get_outliers\<close> returns for the
  columns that pass the test. When no column passes the test, the report is empty.
\<close>

theorem percentage_zero_division:
  "(whole \<noteq> 0 \<and> part < 2 ^ 53 \<and> whole < 2 ^ 53 \<longrightarrow>
      percentage nu part whole 4 =
        Inr (builtin_round nu (float_truediv nu (float_mul nu 100 (real part)) (real whole)) 4)) \<and>
   (part < 2 ^ 53 \<longrightarrow> percentage nu part 0 4 = Inl ZeroDivisionError) \<and>
   (wf_dataframe df \<and> rows df = [] \<and> selected df cols c \<longrightarrow>
      (\<exists>e. get_outliers_information nu self df output_dataframes cols log_information = Inl e)) \<and>
   (wf_dataframe df \<and> rows df = [] \<and> selected df cols c \<and>
    (\<forall>c'. selected df cols c' \<longrightarrow> (\<exists>outl. get_outliers nu self df c' = Inr outl)) \<longrightarrow>
      get_outliers_information nu self df output_dataframes cols log_information
        = Inl ZeroDivisionError) \<and>
   (wf_dataframe df \<and> (\<forall>c. \<not> selected df cols c) \<longrightarrow>
      get_outliers_information nu self df output_dataframes cols log_information
        = Inr ([], []))"
  using get_outliers_information_no_rows [of df cols c nu self output_dataframes log_information]
    get_outliers_information_no_selected [of df cols nu self output_dataframes log_information]
  by (simp add: percentage_zero percentage_nonzero)

text \<open>
  In exact arithmetic one part in four is \<open>25\<close> percent. The table with the numeric
  column \<open>a\<close> and no rows gives the ZeroDivisionError with no filter and the empty
  report with the filter \<open>b\<close>.
\<close>

theorem percentage_zero_division_witness:
  "(4::nat) \<noteq> 0 \<and> (1::nat) < 2 ^ 53 \<and> (4::nat) < 2 ^ 53 \<and>
   percentage exact 1 4 4 = Inr 25 \<and>
   percentage exact 1 0 4 = Inl ZeroDivisionError \<and>
   wf_dataframe no_rows \<and> rows no_rows = [] \<and> selected no_rows [] ''a'' \<and>
   get_outliers exact (init None) no_rows ''a'' = Inr no_rows \<and>
   get_outliers_information exact (init None) no_rows True [] True = Inl ZeroDivisionError \<and>
   (\<forall>c. \<not> selected no_rows [''b''] c) \<and>
   get_outliers_information exact (init None) no_rows True [''b''] True = Inr ([], [])"
proof -
  have h: "wf_dataframe no_rows" "rows no_rows = []" "selected no_rows [] ''a''"
    "\<forall>c. \<not> selected no_rows [''b''] c"
    by (simp_all add: wf_dataframe_def no_rows_def selected_def column_dtype_def)
  have all: "\<forall>c'. selected no_rows [] c' \<longrightarrow>
      (\<exists>outl. get_outliers exact (init None) no_rows c' = Inr outl)"
    using get_outliers_exact_selected by blast
  have pos: "column_pos (columns no_rows) ''a'' = Some 0"
    and m: "calculation_method (init None) = ZSCORE"
    by (simp_all add: no_rows_def init_def)
  have g: "get_outliers exact (init None) no_rows ''a'' = Inr no_rows"
    unfolding get_outliers_zscore [OF pos m] by (simp add: h(2) no_rows_def)
  have r: "builtin_round exact (float_truediv exact (float_mul exact 100 (real 1)) (real 4)) 4 = 25"
    by (simp add: round_decimal_def round_half_even_def Let_def)
  show ?thesis
    using h all g r
      percentage_zero_division [of 4 1 exact no_rows "[]" "''a''" "init None" True True]
      percentage_zero_division [of 4 1 exact no_rows "[''b'']" "''a''" "init None" True True]
    by simp
qed

text \<open>
  Claim C4 as stated fails: with \<open>whole = 0\<close> the percentage is not \<open>0.0\<close> but an
  error, and the report of a table with a numeric column and no rows is that error.
\<close>

theorem percentage_zero_counterexample:
  "percentage exact 0 0 4 = Inl ZeroDivisionError \<and> percentage exact 0 0 4 \<noteq> Inr 0 \<and>
   len_index no_rows = 0 \<and>
   get_outliers_information exact (init None) no_rows True [] True = Inl ZeroDivisionError"
proof -
  have "rows no_rows = []" "selected no_rows [] ''a''"
    by (simp_all add: no_rows_def selected_def column_dtype_def)
  then have "get_outliers_information exact (init None) no_rows True [] True
      = Inl ZeroDivisionError"
    using get_outliers_information_exact_no_rows [of no_rows "init None" True "[]" True] by auto
  then show ?thesis
    by (simp add: percentage_zero len_index_def no_rows_def)
qed

text \<open>
  In doubles one part in \<open>16000\<close> is \<open>0.0063\<close> percent and three parts are \<open>0.0187\<close>
  percent: the quotients \<open>0.00625\<close> and \<open>0.01875\<close> are doubles just above and just below
  the decimal tie. Without rounding the ties go to the even digit.
\<close>

lemma percentage_doubles:
  "percentage (binary64 lib) 1 16000 4 = Inr (round_binary64 (63/10000))"
  "percentage (binary64 lib) 3 16000 4 = Inr (round_binary64 (187/10000))"
  "percentage (binary64 lib) 1 4 4 = Inr 25"
  "percentage exact 1 16000 4 = Inr (62/10000)"
  "percentage exact 3 16000 4 = Inr (188/10000)"
  by (simp_all add: percentage_def round_binary64_eval round_decimal_def)

subsection \<open>A mismatch of the counts\<close>

text \<open>
  A mismatch of the counts for any arithmetic: as long as \<open>get_outliers\<close> returns for
  the columns that pass the test, the call returns, with the warning and the entry.
\<close>

lemma mismatch_any_arithmetic:
  assumes "selected df cols c"
    and "get_missing df c = Inr missing"
    and "get_outliers nu self df c = Inr outl"
    and "get_non_outliers nu self df c = Inr rest"
    and "len_index missing + len_index outl + len_index rest \<noteq> len_index df"
    and all: "\<forall>c'. selected df cols c' \<longrightarrow> (\<exists>x. get_outliers nu self df c' = Inr x)"
  shows "\<exists>out res rep.
     get_outliers_information nu self df output_dataframes cols log_information = Inr (out, res) \<and>
     Warning c \<in> set out \<and>
     map_of res c = Some rep \<and>
     missing_values_count rep = len_index missing \<and>
     outlier_values_count rep = len_index outl \<and>
     non_outlier_values_count rep = len_index rest \<and>
     percentage nu (len_index missing) (len_index df) 4 = Inr (missing_values_percentage rep) \<and>
     percentage nu (len_index outl) (len_index df) 4 = Inr (outlier_values_percentage rep) \<and>
     percentage nu (len_index rest) (len_index df) 4 = Inr (non_outlier_values_percentage rep) \<and>
     fst ` set res = {c'. selected df cols c'}"
proof -
  obtain i where pos: "column_pos (columns df) c = Some i"
    using selected_pos [OF assms(1)] by blast
  have ne: "rows df \<noteq> []"
  proof
    assume e: "rows df = []"
    have "rows missing = []"
      using assms(2) e unfolding get_missing_eq [OF pos] by auto
    moreover have "rows outl = []"
      using get_outliers_filter [OF pos assms(3)] e by auto
    moreover have "rows rest = []"
      using assms(4) e unfolding get_non_outliers_eq [OF pos assms(3)] by auto
    ultimately show False
      using assms(5) e by (simp add: len_index_def)
  qed
  then have n0: "len_index df \<noteq> 0"
    by (simp add: len_index_def)
  have "\<exists>x. column_information nu self df output_dataframes c' = Inr x"
    if s: "selected df cols c'" for c'
  proof -
    obtain j where pos': "column_pos (columns df) c' = Some j"
      using selected_pos [OF s] by blast
    show ?thesis
      using column_information_Inr_iff [OF pos', of nu self output_dataframes] ne all s by simp
  qed
  then obtain out res where goi:
    "get_outliers_information nu self df output_dataframes cols log_information = Inr (out, res)"
    using get_outliers_information_returns_iff [of nu self df output_dataframes cols log_information]
    by blast
  note ci = column_information_eq [OF assms(2) get_non_missing_eq [OF pos] assms(3,4),
      of output_dataframes]
  note props = get_outliers_information_Inr [OF goi]
  have "map_of res c = Some (snd (projr (column_information nu self df output_dataframes c)))"
    and "set (fst (projr (column_information nu self df output_dataframes c))) \<subseteq> set out"
    using props(3) [OF assms(1)] by simp_all
  then show ?thesis
    using goi props(1) ne n0 assms(5) unfolding ci
    by (simp add: percentage_nonzero)
qed

text \<open>
  Claim C6. When, for a column that passes the test of the loop, the three counts do not
  add up to the row count of the table, \<^verbatim>\<open>get_outliers_information\<close> still returns:
  the warning for the column is among what it printed, the column has its entry with the
  three counts and their percentages, and every column that passes the test has an entry.
  (Stated with the statistics of \<open>exact\<close>, which raise nothing; by
  \<open>mismatch_any_arithmetic\<close> the same holds for every arithmetic in which
  \<^verbatim>\<open>get_outliers\<close> returns for the columns that pass the test.)
\<close>

theorem mismatch_warns_and_reports:
  assumes "wf_dataframe df"
    and "selected df cols c"
    and "get_missing df c = Inr missing"
    and "get_outliers exact self df c = Inr outl"
    and "get_non_outliers exact self df c = Inr rest"
    and "len_index missing + len_index outl + len_index rest \<noteq> len_index df"
  shows "\<exists>out res rep.
     get_outliers_information exact self df output_dataframes cols log_information = Inr (out, res) \<and>
     Warning c \<in> set out \<and>
     map_of res c = Some rep \<and>
     missing_values_count rep = len_index missing \<and>
     outlier_values_count rep = len_index outl \<and>
     non_outlier_values_count rep = len_index rest \<and>
     percentage exact (len_index missing) (len_index df) 4 = Inr (missing_values_percentage rep) \<and>
     percentage exact (len_index outl) (len_index df) 4 = Inr (outlier_values_percentage rep) \<and>
     percentage exact (len_index rest) (len_index df) 4 = Inr (non_outlier_values_percentage rep) \<and>
     fst ` set res = {c'. selected df cols c'}"
proof -
  have "\<forall>c'. selected df cols c' \<longrightarrow> (\<exists>x. get_outliers exact self df c' = Inr x)"
    using get_outliers_exact_selected by blast
  then show ?thesis
    by (rule mismatch_any_arithmetic [OF assms(2-6)])
qed

lemma report_concatenated:
  "get_outliers_information exact (init (Some INTERQUARTILE)) concatenated False [] False
     = Inr ([Warning ''a''],
         [(''a'', \<lparr>missing_values_count = 0, missing_values_percentage = 0,
             outlier_values_count = 1, outlier_values_percentage = 20,
             non_outlier_values_count = 3, non_outlier_values_percentage = 60,
             missing_values_df = None, outlier_values_df = None,
             non_outlier_values_df = None\<rparr>)])"
proof -
  have pos: "column_pos (columns concatenated) ''a'' = Some 0"
    by (simp add: concatenated_def)
  note ci = column_information_eq [OF classes_concatenated(1) get_non_missing_eq [OF pos]
      classes_concatenated(2,3), of False]
  have "columns concatenated = [(''a'', Float64)]" "rows concatenated \<noteq> []"
    "len_index concatenated = 5"
    by (simp_all add: concatenated_def len_index_def)
  then show ?thesis
    unfolding get_outliers_information_def
    by (simp add: getitem_column_Some [OF pos] ci len_index_def round_decimal_def
          round_half_even_def Let_def)
qed

text \<open>
  On the table with the repeated label the counts \<open>0\<close>, \<open>1\<close> and \<open>3\<close> do not add
  up to \<open>5\<close>: the warning is printed and the column is reported with these counts.
\<close>

theorem mismatch_warns_and_reports_witness:
  "wf_dataframe concatenated \<and> selected concatenated [] ''a'' \<and>
   get_missing concatenated ''a'' = Inr (concatenated\<lparr>rows := []\<rparr>) \<and>
   get_outliers exact (init (Some INTERQUARTILE)) concatenated ''a''
     = Inr (concatenated\<lparr>rows := [\<lparr>label = 0, cells = [Some 200]\<rparr>]\<rparr>) \<and>
   get_non_outliers exact (init (Some INTERQUARTILE)) concatenated ''a''
     = Inr (concatenated\<lparr>rows := [\<lparr>label = 1, cells = [Some 12]\<rparr>,
             \<lparr>label = 2, cells = [Some 11]\<rparr>, \<lparr>label = 3, cells = [Some 13]\<rparr>]\<rparr>) \<and>
   (0::nat) + 1 + 3 \<noteq> len_index concatenated \<and>
   get_outliers_information exact (init (Some INTERQUARTILE)) concatenated False [] False
     = Inr ([Warning ''a''],
         [(''a'', \<lparr>missing_values_count = 0, missing_values_percentage = 0,
             outlier_values_count = 1, outlier_values_percentage = 20,
             non_outlier_values_count = 3, non_outlier_values_percentage = 60,
             missing_values_df = None, outlier_values_df = None,
             non_outlier_values_df = None\<rparr>)])"
proof -
  have h: "wf_dataframe concatenated" "selected concatenated [] ''a''"
    by (simp_all add: wf_dataframe_def concatenated_def selected_def column_dtype_def)
  have n: "len_index (concatenated\<lparr>rows := []\<rparr>)
     + len_index (concatenated\<lparr>rows := [\<lparr>label = 0, cells = [Some 200]\<rparr>]\<rparr>)
     + len_index (concatenated\<lparr>rows := [\<lparr>label = 1, cells = [Some 12]\<rparr>,
             \<lparr>label = 2, cells = [Some 11]\<rparr>, \<lparr>label = 3, cells = [Some 13]\<rparr>]\<rparr>)
     \<noteq> len_index concatenated"
    by (simp add: len_index_def concatenated_def)
  have "len_index concatenated = 5"
    by (simp add: len_index_def concatenated_def)
  then show ?thesis
    using h mismatch_warns_and_reports [OF h classes_concatenated n, of False False]
    by (simp add: classes_concatenated report_concatenated)
qed

subsection \<open>The columns of the report\<close>

lemmas report_eval = get_outliers_information_def getitem_column_def column_information_def
  get_missing_def get_non_missing_def get_outliers_def get_non_outliers_def
  filter_dataframe_out_def getitem_mask_def mask_rows_def index_def len_index_def
  calculate_outliers_interquartile_def quantile_def quantile_linear_def
  lt_nan_def gt_nan_def sub_nan_def add_nan_def mul_nan_def
  percentage_def round_decimal_def round_half_even_def log_column_information_def
  init_def Let_def

lemma report_mixed:
  "get_outliers_information exact (init (Some INTERQUARTILE)) mixed False [] False
     = Inr ([],
         [(''a'', \<lparr>missing_values_count = 0, missing_values_percentage = 0,
             outlier_values_count = 0, outlier_values_percentage = 0,
             non_outlier_values_count = 3, non_outlier_values_percentage = 100,
             missing_values_df = None, outlier_values_df = None,
             non_outlier_values_df = None\<rparr>),
          (''b'', \<lparr>missing_values_count = 1, missing_values_percentage = 333333 / 10000,
             outlier_values_count = 0, outlier_values_percentage = 0,
             non_outlier_values_count = 2, non_outlier_values_percentage = 666667 / 10000,
             missing_values_df = None, outlier_values_df = None,
             non_outlier_values_df = None\<rparr>)])"
  by (simp add: report_eval mixed_def)

lemma report_mixed_filtered:
  "get_outliers_information exact (init (Some INTERQUARTILE)) mixed False [''b'', ''d''] True
     = Inr ([ColumnInformation ''b'' 1 (333333 / 10000) 0 0 2 (666667 / 10000)],
         [(''b'', \<lparr>missing_values_count = 1, missing_values_percentage = 333333 / 10000,
             outlier_values_count = 0, outlier_values_percentage = 0,
             non_outlier_values_count = 2, non_outlier_values_percentage = 666667 / 10000,
             missing_values_df = None, outlier_values_df = None,
             non_outlier_values_df = None\<rparr>)])"
  by (simp add: report_eval mixed_def)

text \<open>
  Claim C7, as amended. \<^verbatim>\<open>get_outliers_information\<close> returns a report exactly when,
  for every column that passes the test of the loop, the table has at least one row and
  \<^verbatim>\<open>get_outliers\<close> returns. Whenever it returns a report: with no column filter every
  numeric column has an entry; a column that is not numeric, or that a non-empty filter
  does not name, has no entry and nothing printed is about it, neither a warning nor a
  logged block. This holds for every arithmetic.
\<close>

theorem report_entries:
  assumes "wf_dataframe df"
  shows "((\<exists>out res. get_outliers_information nu self df output_dataframes cols log_information
              = Inr (out, res)) \<longleftrightarrow>
           (\<forall>c. selected df cols c \<longrightarrow>
              rows df \<noteq> [] \<and> (\<exists>outl. get_outliers nu self df c = Inr outl))) \<and>
         (\<forall>out res. get_outliers_information nu self df output_dataframes cols log_information
              = Inr (out, res) \<longrightarrow>
            (cols = [] \<longrightarrow>
               (\<forall>c t. column_dtype df c = Some t \<and> is_numeric_dtype t \<longrightarrow> c \<in> fst ` set res)) \<and>
            (\<forall>c t. column_dtype df c = Some t \<and>
                   (\<not> is_numeric_dtype t \<or> (cols \<noteq> [] \<and> c \<notin> set cols)) \<longrightarrow>
               c \<notin> fst ` set res \<and> c \<notin> printed_column ` set out))"
proof (intro conjI allI impI)
  have "(\<exists>x. column_information nu self df output_dataframes c = Inr x) \<longleftrightarrow>
        rows df \<noteq> [] \<and> (\<exists>outl. get_outliers nu self df c = Inr outl)"
    if s: "selected df cols c" for c
  proof -
    obtain i where pos: "column_pos (columns df) c = Some i"
      using selected_pos [OF s] by blast
    show ?thesis
      by (rule column_information_Inr_iff [OF pos])
  qed
  then show "(\<exists>out res. get_outliers_information nu self df output_dataframes cols log_information
           = Inr (out, res)) \<longleftrightarrow>
        (\<forall>c. selected df cols c \<longrightarrow>
           rows df \<noteq> [] \<and> (\<exists>outl. get_outliers nu self df c = Inr outl))"
    unfolding get_outliers_information_returns_iff by blast
next
  fix out res c t
  assume goi: "get_outliers_information nu self df output_dataframes cols log_information
      = Inr (out, res)"
    and "cols = []" and "column_dtype df c = Some t \<and> is_numeric_dtype t"
  then have "selected df cols c"
    by (simp add: selected_def)
  then show "c \<in> fst ` set res"
    using get_outliers_information_Inr(1) [OF goi] by simp
next
  fix out res c t
  assume goi: "get_outliers_information nu self df output_dataframes cols log_information
      = Inr (out, res)"
    and "column_dtype df c = Some t \<and> (\<not> is_numeric_dtype t \<or> (cols \<noteq> [] \<and> c \<notin> set cols))"
  then have n: "\<not> selected df cols c"
    by (auto simp: selected_def)
  show "c \<notin> fst ` set res"
    using n get_outliers_information_Inr(1) [OF goi] by simp
  show "c \<notin> printed_column ` set out"
    using n get_outliers_information_Inr(2) [OF goi] by blast
qed

text \<open>
  In exact arithmetic, on the table with the numeric columns \<open>a\<close> and \<open>b\<close> and the
  column of durations \<open>d\<close>: with no filter the report has the entries \<open>a\<close> and \<open>b\<close>;
  with the filter \<open>b, d\<close> it has the entry \<open>b\<close> alone and only \<open>b\<close> is logged.
\<close>

theorem report_entries_witness:
  "wf_dataframe mixed \<and> rows mixed \<noteq> [] \<and>
   column_dtype mixed ''a'' = Some Float64 \<and> column_dtype mixed ''b'' = Some Float64 \<and>
   column_dtype mixed ''d'' = Some Timedelta64 \<and>
   (\<exists>out res. get_outliers_information exact (init (Some INTERQUARTILE)) mixed False [] False
        = Inr (out, res) \<and>
      map fst res = [''a'', ''b''] \<and> ''d'' \<notin> fst ` set res \<and> out = []) \<and>
   (\<exists>out res. get_outliers_information exact (init (Some INTERQUARTILE)) mixed False
        [''b'', ''d''] True = Inr (out, res) \<and>
      map fst res = [''b''] \<and> ''a'' \<notin> fst ` set res \<and> ''d'' \<notin> fst ` set res \<and>
      map printed_column out = [''b''])"
proof -
  have h: "wf_dataframe mixed"
    by (simp add: wf_dataframe_def mixed_def)
  have "rows mixed \<noteq> []" "column_dtype mixed ''a'' = Some Float64"
    "column_dtype mixed ''b'' = Some Float64" "column_dtype mixed ''d'' = Some Timedelta64"
    by (simp_all add: mixed_def column_dtype_def)
  then show ?thesis
    using h report_entries [OF h, of exact "init (Some INTERQUARTILE)" False "[]" False]
      report_entries [OF h, of exact "init (Some INTERQUARTILE)" False "[''b'', ''d'']" True]
    by (simp add: report_mixed report_mixed_filtered)
qed

text \<open>
  Claim C7 as stated, for every table, fails on a table with a numeric column and no
  rows: no mapping is returned, the call ends in the division by zero of the percentages.
\<close>

theorem report_no_rows_counterexample:
  "wf_dataframe no_rows \<and> column_dtype no_rows ''a'' = Some Float64 \<and>
   is_numeric_dtype Float64 \<and>
   get_outliers_information exact (init (Some INTERQUARTILE)) no_rows False [] False
     = Inl ZeroDivisionError"
proof -
  have "rows no_rows = []" "selected no_rows [] ''a''"
    by (simp_all add: no_rows_def selected_def column_dtype_def)
  then have "get_outliers_information exact (init (Some INTERQUARTILE)) no_rows False [] False
      = Inl ZeroDivisionError"
    using get_outliers_information_exact_no_rows
      [of no_rows "init (Some INTERQUARTILE)" False "[]" False]
    by auto
  then show ?thesis
    by (simp add: wf_dataframe_def no_rows_def column_dtype_def)
qed

text \<open>
  When \<^verbatim>\<open>Series.quantile\<close> raises for a column that passes the test, as pandas
  does with a TypeError on a column of booleans, \<^verbatim>\<open>get_outliers\<close> raises and the
  call ends in that error, although the table has rows.
\<close>

lemma report_quantile_raises:
  assumes "series_quantile nu Float64 (present_cells mixed ''a'') 0.25 = Inl TypeError"
  shows "get_outliers nu (init (Some INTERQUARTILE)) mixed ''a'' = Inl TypeError"
    and "get_outliers_information nu (init (Some INTERQUARTILE)) mixed False [] False
           = Inl TypeError"
proof -
  have pos: "column_pos (columns mixed) ''a'' = Some 0"
    and m: "calculation_method (init (Some INTERQUARTILE)) = INTERQUARTILE"
    and t: "snd (columns mixed ! 0) = Float64"
    by (simp_all add: mixed_def init_def)
  show g: "get_outliers nu (init (Some INTERQUARTILE)) mixed ''a'' = Inl TypeError"
    unfolding get_outliers_interquartile [OF pos m] t assms by simp
  have sel: "filter (selected mixed []) (map fst (columns mixed)) = [''a'', ''b'']"
    by (simp add: mixed_def selected_def column_dtype_def)
  show "get_outliers_information nu (init (Some INTERQUARTILE)) mixed False [] False
           = Inl TypeError"
    unfolding get_outliers_information_eq sel
    by (simp add: get_outliers_Inl [OF g])
qed

lemma selected_absent_name:
  assumes "n \<notin> fst ` set (columns df)" and "removeAll n cols \<noteq> []"
  shows "selected df (removeAll n cols) = selected df cols"
proof
  fix c
  show "selected df (removeAll n cols) c = selected df cols c"
  proof (cases "c = n")
    case True
    then have "column_dtype df c = None"
      using assms(1) by (simp add: column_dtype_def map_of_eq_None_iff)
    then show ?thesis by (simp add: selected_def)
  next
    case False
    moreover have "cols \<noteq> []"
      using assms(2) by auto
    ultimately show ?thesis
      using assms(2) by (simp add: selected_def split: option.splits)
  qed
qed

lemma get_outliers_information_cong:
  assumes "selected df cols' = selected df cols"
  shows "get_outliers_information nu self df od cols' lg
       = get_outliers_information nu self df od cols lg"
  by (simp only: get_outliers_information_eq assms)

text \<open>
  Claim C10. A name in the column filter that is not a column of the table is ignored.
  Whenever \<^verbatim>\<open>get_outliers_information\<close> returns, the name has no entry and nothing
  printed is about it. As long as the filter holds another name, the call gives what it
  gives without the absent name, result or error alike. A filter that holds no column of the table gives
  the empty report and no error. This holds for every arithmetic.
\<close>

theorem absent_filter_name_ignored:
  assumes "wf_dataframe df"
    and "n \<notin> fst ` set (columns df)"
    and "n \<in> set cols"
  shows "(\<forall>out res. get_outliers_information nu self df output_dataframes cols log_information
              = Inr (out, res) \<longrightarrow>
            n \<notin> fst ` set res \<and> n \<notin> printed_column ` set out) \<and>
         (removeAll n cols \<noteq> [] \<longrightarrow>
            get_outliers_information nu self df output_dataframes cols log_information
              = get_outliers_information nu self df output_dataframes (removeAll n cols)
                  log_information) \<and>
         (set cols \<inter> fst ` set (columns df) = {} \<longrightarrow>
            get_outliers_information nu self df output_dataframes cols log_information
              = Inr ([], []))"
proof (intro conjI allI impI)
  fix out res
  assume goi: "get_outliers_information nu self df output_dataframes cols log_information
      = Inr (out, res)"
  have ns: "\<not> selected df cols n"
    using assms(2) selected_column by blast
  show "n \<notin> fst ` set res"
    using ns get_outliers_information_Inr(1) [OF goi] by simp
  show "n \<notin> printed_column ` set out"
    using ns get_outliers_information_Inr(2) [OF goi] by blast
next
  assume "removeAll n cols \<noteq> []"
  then show "get_outliers_information nu self df output_dataframes cols log_information
      = get_outliers_information nu self df output_dataframes (removeAll n cols) log_information"
    using get_outliers_information_cong [OF selected_absent_name [OF assms(2)]] by simp
next
  assume d: "set cols \<inter> fst ` set (columns df) = {}"
  have "cols \<noteq> []"
    using assms(3) by auto
  then have "\<not> selected df cols c" for c
    using d selected_column [of df cols c]
    by (auto simp: selected_def split: option.splits)
  then show "get_outliers_information nu self df output_dataframes cols log_information
      = Inr ([], [])"
    using get_outliers_information_no_selected by blast
qed

theorem absent_filter_name_ignored_witness:
  "wf_dataframe mixed \<and> ''zz'' \<notin> fst ` set (columns mixed) \<and>
   removeAll ''zz'' [''b'', ''zz'', ''d''] = [''b'', ''d''] \<and>
   get_outliers_information exact (init (Some INTERQUARTILE)) mixed False
       [''b'', ''zz'', ''d''] True
     = Inr ([ColumnInformation ''b'' 1 (333333 / 10000) 0 0 2 (666667 / 10000)],
         [(''b'', \<lparr>missing_values_count = 1, missing_values_percentage = 333333 / 10000,
             outlier_values_count = 0, outlier_values_percentage = 0,
             non_outlier_values_count = 2, non_outlier_values_percentage = 666667 / 10000,
             missing_values_df = None, outlier_values_df = None,
             non_outlier_values_df = None\<rparr>)]) \<and>
   get_outliers_information exact (init (Some INTERQUARTILE)) mixed False [''zz''] True
     = Inr ([], [])"
proof -
  have h: "wf_dataframe mixed" "''zz'' \<notin> fst ` set (columns mixed)"
    by (simp_all add: wf_dataframe_def mixed_def)
  have m: "''zz'' \<in> set [''b'', ''zz'', ''d'']" "''zz'' \<in> set [''zz'']"
    by simp_all
  have "set [''zz''] \<inter> fst ` set (columns mixed) = {}"
    by (simp add: mixed_def)
  then show ?thesis
    using h
      absent_filter_name_ignored [OF h m(1), of exact "init (Some INTERQUARTILE)" False True]
      absent_filter_name_ignored [OF h m(2), of exact "init (Some INTERQUARTILE)" False True]
    by (simp add: report_mixed_filtered)
qed

end
